theory Spec2Isabelle
  imports Main
begin

section \<open>Feature block generators of triage's architect component\<close>

text \<open>
  A shallow embedding of \<^verbatim>\<open>triage/component/architect/feature_block_generators.py\<close>.
  Configuration values are the values a YAML or JSON document holds. Exceptions are
  values of a sum type, and every method threads the state it can change: the
  generator instance (for its \<^verbatim>\<open>categorical_cache\<close>) and the world outside the process
  (the calls made on the relational store, the tables it holds, the log records).
\<close>

subsection \<open>Python values\<close>

text \<open>
  Mappings of a configuration have string keys. Floating point numbers, tuples and sets
  are not part of the model. A character is one \<^typ>\<open>char\<close>.
\<close>

datatype pyval =
    PNone
  | PBool bool
  | PInt int
  | PStr string
  | PList "pyval list"
  | PDict "(string \<times> pyval) list"

datatype error =
    KeyError string
  | TypeError
  | ValueError string
  | AttributeError
  | IndexError
  | StoreError string

text \<open>Truth value testing (\<^verbatim>\<open>if not x\<close>).\<close>

fun truthy :: "pyval \<Rightarrow> bool" where
  "truthy PNone = False"
| "truthy (PBool b) = b"
| "truthy (PInt i) = (i \<noteq> 0)"
| "truthy (PStr s) = (s \<noteq> [])"
| "truthy (PList xs) = (xs \<noteq> [])"
| "truthy (PDict d) = (d \<noteq> [])"

text \<open>\<^verbatim>\<open>x[k]\<close> for a string literal \<^verbatim>\<open>k\<close>: only a mapping can be indexed by a string.\<close>

fun getitem :: "pyval \<Rightarrow> string \<Rightarrow> error + pyval" where
  "getitem (PDict d) k = (case map_of d k of None \<Rightarrow> Inl (KeyError k) | Some v \<Rightarrow> Inr v)"
| "getitem _ k = Inl TypeError"

text \<open>\<^verbatim>\<open>x.get(k, default)\<close>: only a mapping has the method.\<close>

fun py_get :: "pyval \<Rightarrow> string \<Rightarrow> pyval \<Rightarrow> error + pyval" where
  "py_get (PDict d) k dflt = Inr (case map_of d k of None \<Rightarrow> dflt | Some v \<Rightarrow> v)"
| "py_get _ k dflt = Inl AttributeError"

fun is_prefix :: "string \<Rightarrow> string \<Rightarrow> bool" where
  "is_prefix [] s = True"
| "is_prefix (c # k) [] = False"
| "is_prefix (c # k) (c' # s) = (c = c' \<and> is_prefix k s)"

fun is_substring :: "string \<Rightarrow> string \<Rightarrow> bool" where
  "is_substring k [] = (k = [])"
| "is_substring k (c # s) = (is_prefix k (c # s) \<or> is_substring k s)"

text \<open>\<^verbatim>\<open>k in x\<close> for a string literal \<^verbatim>\<open>k\<close>: a key of a mapping, an element of a list,
  a substring of a string.\<close>

fun py_in :: "string \<Rightarrow> pyval \<Rightarrow> error + bool" where
  "py_in k (PDict d) = Inr (map_of d k \<noteq> None)"
| "py_in k (PList xs) = Inr (PStr k \<in> set xs)"
| "py_in k (PStr s) = Inr (is_substring k s)"
| "py_in k _ = Inl TypeError"

text \<open>Iteration (\<^verbatim>\<open>for x in v\<close>): the elements of a list, the keys of a mapping,
  the characters of a string.\<close>

fun py_iter :: "pyval \<Rightarrow> error + pyval list" where
  "py_iter (PList xs) = Inr xs"
| "py_iter (PDict d) = Inr (map (\<lambda>kv. PStr (fst kv)) d)"
| "py_iter (PStr s) = Inr (map (\<lambda>c. PStr [c]) s)"
| "py_iter _ = Inl TypeError"

fun py_len :: "pyval \<Rightarrow> error + pyval" where
  "py_len (PList xs) = Inr (PInt (int (length xs)))"
| "py_len (PDict d) = Inr (PInt (int (length d)))"
| "py_len (PStr s) = Inr (PInt (int (length s)))"
| "py_len _ = Inl TypeError"

text \<open>Keys of a Python dictionary: lists and mappings cannot be hashed, and
  \<^verbatim>\<open>True\<close> and \<^verbatim>\<open>1\<close> (\<^verbatim>\<open>False\<close> and \<^verbatim>\<open>0\<close>) are one key.\<close>

fun hashable :: "pyval \<Rightarrow> bool" where
  "hashable (PList xs) = False"
| "hashable (PDict d) = False"
| "hashable _ = True"

fun py_key :: "pyval \<Rightarrow> pyval" where
  "py_key (PBool b) = PInt (if b then 1 else 0)"
| "py_key v = v"

text \<open>A dictionary with keys of any hashable type, in insertion order. \<^verbatim>\<open>d[k] = v\<close>
  keeps the place (and the key object) of a key that is already there.\<close>

fun setitem :: "(pyval \<times> 'v) list \<Rightarrow> pyval \<Rightarrow> 'v \<Rightarrow> (pyval \<times> 'v) list" where
  "setitem [] k v = [(k, v)]"
| "setitem (kv # d) k v =
     (if py_key (fst kv) = py_key k then (fst kv, v) # d else kv # setitem d k v)"

fun lookup :: "(pyval \<times> 'v) list \<Rightarrow> pyval \<Rightarrow> 'v option" where
  "lookup [] k = None"
| "lookup (kv # d) k = (if py_key (fst kv) = py_key k then Some (snd kv) else lookup d k)"

fun update_all :: "(pyval \<times> 'v) list \<Rightarrow> (pyval \<times> 'v) list \<Rightarrow> (pyval \<times> 'v) list" where
  "update_all d [] = d"
| "update_all d (kv # kvs) = update_all (setitem d (fst kv) (snd kv)) kvs"

subsection \<open>Rendering values as text\<close>

definition digit :: "nat \<Rightarrow> char" where
  "digit n = ''0123456789'' ! n"

function str_of_nat :: "nat \<Rightarrow> string" where
  "str_of_nat n = (if n < 10 then [digit n] else str_of_nat (n div 10) @ [digit (n mod 10)])"
  by pat_completeness auto
termination
  by (relation "measure id") auto

definition str_of_int :: "int \<Rightarrow> string" where
  "str_of_int i = (if i < 0 then CHR ''-'' # str_of_nat (nat (- i)) else str_of_nat (nat i))"

definition sq :: char where
  "sq = CHR 0x27"

text \<open>\<^verbatim>\<open>str(v)\<close>, as \<^verbatim>\<open>format\<close> and an f-string call it. The text of a list or a mapping
  is a parameter (\<open>compound\<close>): Python's \<^verbatim>\<open>repr\<close> of nested values is not modelled.\<close>

fun py_str :: "(pyval \<Rightarrow> string) \<Rightarrow> pyval \<Rightarrow> string" where
  "py_str compound PNone = ''None''"
| "py_str compound (PBool b) = (if b then ''True'' else ''False'')"
| "py_str compound (PInt i) = str_of_int i"
| "py_str compound (PStr s) = s"
| "py_str compound v = compound v"

declare str_of_nat.simps [simp del]

subsection \<open>The constructor call \<^verbatim>\<open>dict(base, coltype=tag, **extra)\<close>\<close>

type_synonym rules = "(pyval \<times> pyval) list"

text \<open>A dictionary built from a sequence of pairs: each element is itself iterated
  and has to yield a hashable key and a value.\<close>

fun pairs_of_seq :: "nat \<Rightarrow> rules \<Rightarrow> pyval list \<Rightarrow> error + rules" where
  "pairs_of_seq i d [] = Inr d"
| "pairs_of_seq i d (x # xs) =
     (case py_iter x of
        Inl e \<Rightarrow> Inl TypeError
      | Inr ys \<Rightarrow>
          if length ys \<noteq> 2 then
            Inl (ValueError (''dictionary update sequence element #'' @ str_of_nat i @
                             '' has length '' @ str_of_nat (length ys) @ ''; 2 is required''))
          else if \<not> hashable (ys ! 0) then Inl TypeError
          else pairs_of_seq (Suc i) (setitem d (ys ! 0) (ys ! 1)) xs)"

fun dict_items :: "pyval \<Rightarrow> error + rules" where
  "dict_items (PDict d) = Inr (map (\<lambda>kv. (PStr (fst kv), snd kv)) d)"
| "dict_items (PList xs) = pairs_of_seq 0 [] xs"
| "dict_items (PStr s) = pairs_of_seq 0 [] (map (\<lambda>c. PStr [c]) s)"
| "dict_items _ = Inl TypeError"

text \<open>The keyword arguments are put together first: \<^verbatim>\<open>**extra\<close> needs a mapping, and a
  key \<^verbatim>\<open>coltype\<close> in it repeats the keyword written in the call, which is a
  \<^verbatim>\<open>TypeError\<close>. Then the copy of \<open>base\<close> is updated with them in order.\<close>

definition py_dict :: "pyval \<Rightarrow> string \<Rightarrow> pyval \<Rightarrow> error + rules" where
  "py_dict base tag extra =
     (case extra of
        PDict kw \<Rightarrow>
          if map_of kw ''coltype'' \<noteq> None then Inl TypeError
          else (case dict_items base of
                  Inl e \<Rightarrow> Inl e
                | Inr d \<Rightarrow>
                    Inr (update_all d ((PStr ''coltype'', PStr tag) #
                                       map (\<lambda>kv. (PStr (fst kv), snd kv)) kw)))
      | _ \<Rightarrow> Inl TypeError)"

subsection \<open>The collaborators: aggregation engine and relational store\<close>

text \<open>
  The classes of \<^verbatim>\<open>triage.component.collate\<close> are used through their constructors: a
  column specification and an aggregation are the record of the arguments the
  constructor was called with.
\<close>

datatype column_spec =
    Aggregate (quantity: pyval) (aggregate_metrics: pyval) (aggregate_impute_rules: rules)
      (aggregate_coltype: pyval)
  | Categorical (categorical_col: pyval) (categorical_choices: pyval)
      (categorical_metrics: pyval) (categorical_impute_rules: rules)
      (categorical_include_null: bool) (categorical_coltype: pyval)
  | Compare (compare_col: pyval) (compare_op: string)
      (compare_choices: "(pyval \<times> string) list") (compare_metrics: pyval)
      (compare_impute_rules: rules) (op_in_name: bool) (quote_choices: bool)
      (compare_include_null: bool) (compare_coltype: pyval)

text \<open>The source expression of an aggregation. The constructor keeps it as an object
  whose attribute \<^verbatim>\<open>text\<close> is the text it was given (\<^verbatim>\<open>aggregation.from_obj.text\<close>); a plain
  value assigned to the field later has no such attribute.\<close>

datatype source_expression =
    TextClause pyval
  | Plain pyval

fun text_of :: "source_expression \<Rightarrow> error + pyval" where
  "text_of (TextClause expression) = Inr expression"
| "text_of (Plain v) = Inl AttributeError"

text \<open>\<^verbatim>\<open>SpacetimeAggregation\<close>. Three fields share their name with a field of the
  generator and carry the prefix \<open>sa\<close>.\<close>

record spacetime_aggregation =
  aggregates :: "column_spec list"
  from_obj :: source_expression
  intervals :: pyval
  groups :: pyval
  as_of_dates :: pyval
  cohort_table :: pyval
  entity_column :: string
  date_column :: pyval
  output_date_column :: string
  sa_feature_start_time :: pyval
  sa_features_schema_name :: pyval
  prefix :: pyval
  sa_features_ignore_cohort :: pyval

text \<open>A call made on the relational store, by the place that makes it.\<close>

datatype store_call =
    Lookup pyval
  | CreateSchema string
  | CreateTableIfNotExists string pyval

datatype level = INFO | WARNING

record world =
  executed :: "store_call list"
  tables :: "string list"
  logs :: "(level \<times> string \<times> pyval list) list"

text \<open>
  What the code cannot see into is a parameter: the rows the store answers a lookup
  query with and the failures it raises (both may depend on the calls made so far), the
  schema creation directive of an aggregation (\<^verbatim>\<open>get_create_schema\<close>), the criterion by
  which a source expression is materialized, and the text of compound values.
\<close>

record env =
  store_rows :: "store_call list \<Rightarrow> pyval \<Rightarrow> error + pyval list list"
  store_fails :: "store_call list \<Rightarrow> store_call \<Rightarrow> error option"
  get_create_schema :: "spacetime_aggregation \<Rightarrow> string option"
  looks_like_subquery :: "pyval \<Rightarrow> bool"
  compound_str :: "pyval \<Rightarrow> string"

subsection \<open>Programs: state and exceptions\<close>

type_synonym ('s, 'a) prog = "'s \<Rightarrow> (error + 'a) \<times> 's"

definition ret :: "'a \<Rightarrow> ('s, 'a) prog" where
  "ret x = (\<lambda>s. (Inr x, s))"

definition lift :: "error + 'a \<Rightarrow> ('s, 'a) prog" where
  "lift r = (\<lambda>s. (r, s))"

definition bind :: "('s, 'a) prog \<Rightarrow> ('a \<Rightarrow> ('s, 'b) prog) \<Rightarrow> ('s, 'b) prog" where
  "bind m f = (\<lambda>s. case m s of (Inl e, s') \<Rightarrow> (Inl e, s') | (Inr x, s') \<Rightarrow> f x s')"

text \<open>A list comprehension \<^verbatim>\<open>[f(x) for x in xs]\<close>.\<close>

fun mapM :: "('a \<Rightarrow> ('s, 'b) prog) \<Rightarrow> 'a list \<Rightarrow> ('s, 'b list) prog" where
  "mapM f [] = ret []"
| "mapM f (x # xs) = bind (f x) (\<lambda>y. bind (mapM f xs) (\<lambda>ys. ret (y # ys)))"

text \<open>A method of the generator runs on the instance and the world.\<close>

record generator =
  features_schema_name :: pyval
  categorical_cache :: "pyval \<rightharpoonup> pyval"
  feature_start_time :: pyval
  materialize_subquery_fromobjs :: pyval
  features_ignore_cohort :: pyval
  entity_id_column :: string
  from_objs :: rules

definition logging :: "level \<Rightarrow> string \<Rightarrow> pyval list \<Rightarrow> world \<Rightarrow> world" where
  "logging lvl fmt args w = w\<lparr>logs := logs w @ [(lvl, fmt, args)]\<rparr>"

definition logging_info :: "string \<Rightarrow> pyval list \<Rightarrow> (generator \<times> world, unit) prog" where
  "logging_info fmt args = (\<lambda>s. (Inr (), fst s, logging INFO fmt args (snd s)))"

text \<open>A statement passed to \<^verbatim>\<open>conn.execute\<close> is recorded when the call is made; the store
  may then raise.\<close>

definition store_execute :: "env \<Rightarrow> store_call \<Rightarrow> (generator \<times> world, unit) prog" where
  "store_execute env c = (\<lambda>s.
     (case store_fails env (executed (snd s)) c of Some e \<Rightarrow> Inl e | None \<Rightarrow> Inr (),
      fst s, (snd s)\<lparr>executed := executed (snd s) @ [c]\<rparr>))"

subsection \<open>\<^verbatim>\<open>SpacetimeAggregationGenerator\<close>\<close>

text \<open>The methods keep their names without the leading underscore. The instance is
  created by \<^verbatim>\<open>__init__\<close> with an empty cache.\<close>

definition init :: "pyval \<Rightarrow> pyval \<Rightarrow> pyval \<Rightarrow> pyval \<Rightarrow> generator" where
  "init features_schema_name' feature_start_time' materialize_subquery_fromobjs'
        features_ignore_cohort' =
     \<lparr>features_schema_name = features_schema_name',
      categorical_cache = Map.empty,
      feature_start_time = feature_start_time',
      materialize_subquery_fromobjs = materialize_subquery_fromobjs',
      features_ignore_cohort = features_ignore_cohort',
      entity_id_column = ''entity_id'',
      from_objs = []\<rparr>"

text \<open>\<^verbatim>\<open>[row[0] for row in rows]\<close>\<close>

fun first_column :: "pyval list list \<Rightarrow> error + pyval list" where
  "first_column [] = Inr []"
| "first_column (row # rows) =
     (case row of
        [] \<Rightarrow> Inl IndexError
      | v # _ \<Rightarrow> (case first_column rows of Inl e \<Rightarrow> Inl e | Inr vs \<Rightarrow> Inr (v # vs)))"

definition compute_choices :: "env \<Rightarrow> pyval \<Rightarrow> (generator \<times> world, pyval) prog" where
  "compute_choices env choice_query = (\<lambda>s.
     let g = fst s; w = snd s in
     if \<not> hashable choice_query then (Inl TypeError, g, w)
     else
       (case categorical_cache g (py_key choice_query) of
          Some choices \<Rightarrow> (Inr choices, g, w)
        | None \<Rightarrow>
            let w1 = w\<lparr>executed := executed w @ [Lookup choice_query]\<rparr> in
            (case store_rows env (executed w) choice_query of
               Inl e \<Rightarrow> (Inl e, g, w1)
             | Inr rows \<Rightarrow>
                 (case first_column rows of
                    Inl e \<Rightarrow> (Inl e, g, w1)
                  | Inr vs \<Rightarrow>
                      (Inr (PList vs),
                       g\<lparr>categorical_cache :=
                            (categorical_cache g)(py_key choice_query \<mapsto> PList vs)\<rparr>,
                       logging INFO ''Computed list of categoricals: %s for choice query: %s''
                         [PList vs, choice_query] w1)))))"

definition build_choices :: "env \<Rightarrow> pyval \<Rightarrow> (generator \<times> world, pyval) prog" where
  "build_choices env categorical =
     bind (lift (getitem categorical ''column'')) (\<lambda>column.
     bind (lift (getitem categorical ''metrics'')) (\<lambda>metrics.
     bind (logging_info ''Building categorical choices for column %s, metrics %s''
             [column, metrics]) (\<lambda>_.
     bind (lift (py_in ''choices'' categorical)) (\<lambda>configured.
     if configured then
       bind (lift (getitem categorical ''choices'')) (\<lambda>choices.
       bind (logging_info ''Found list of configured choices: %s'' [choices]) (\<lambda>_.
       ret choices))
     else
       bind (lift (getitem categorical ''choice_query'')) (compute_choices env)))))"

definition build_categorical ::
  "env \<Rightarrow> pyval \<Rightarrow> pyval \<Rightarrow> (generator \<times> world, column_spec) prog" where
  "build_categorical env impute_rules categorical =
     bind (lift (getitem categorical ''column'')) (\<lambda>col.
     bind (build_choices env categorical) (\<lambda>choices.
     bind (lift (getitem categorical ''metrics'')) (\<lambda>metrics.
     bind (lift (py_get categorical ''imputation'' (PDict []))) (\<lambda>imputation.
     bind (lift (py_dict impute_rules ''categorical'' imputation)) (\<lambda>merged.
     bind (lift (py_get categorical ''coltype'' PNone)) (\<lambda>coltype.
     ret (Categorical col choices metrics merged True coltype)))))))"

definition build_categoricals ::
  "env \<Rightarrow> pyval \<Rightarrow> pyval \<Rightarrow> (generator \<times> world, column_spec list) prog" where
  "build_categoricals env categorical_config impute_rules =
     bind (lift (py_iter categorical_config)) (mapM (build_categorical env impute_rules))"

text \<open>The dictionary comprehension
  \<^verbatim>\<open>{choice: "array['{}'::varchar]".format(choice) for choice in choices}\<close>\<close>

definition array_literal :: "env \<Rightarrow> pyval \<Rightarrow> string" where
  "array_literal env choice =
     ''array['' @ [sq] @ py_str (compound_str env) choice @ [sq] @ ''::varchar]''"

fun array_choices ::
  "env \<Rightarrow> (pyval \<times> string) list \<Rightarrow> pyval list \<Rightarrow> error + (pyval \<times> string) list" where
  "array_choices env d [] = Inr d"
| "array_choices env d (choice # choices) =
     (if \<not> hashable choice then Inl TypeError
      else array_choices env (setitem d choice (array_literal env choice)) choices)"

definition build_array_categorical ::
  "env \<Rightarrow> pyval \<Rightarrow> pyval \<Rightarrow> (generator \<times> world, column_spec) prog" where
  "build_array_categorical env impute_rules categorical =
     bind (lift (getitem categorical ''column'')) (\<lambda>col.
     bind (build_choices env categorical) (\<lambda>choices.
     bind (lift (py_iter choices)) (\<lambda>choice_list.
     bind (lift (array_choices env [] choice_list)) (\<lambda>choice_dict.
     bind (lift (getitem categorical ''metrics'')) (\<lambda>metrics.
     bind (lift (py_get categorical ''imputation'' (PDict []))) (\<lambda>imputation.
     bind (lift (py_dict impute_rules ''array_categorical'' imputation)) (\<lambda>merged.
     bind (lift (py_get categorical ''coltype'' PNone)) (\<lambda>coltype.
     ret (Compare col ''@>'' choice_dict metrics merged False False True coltype)))))))))"

definition build_array_categoricals ::
  "env \<Rightarrow> pyval \<Rightarrow> pyval \<Rightarrow> (generator \<times> world, column_spec list) prog" where
  "build_array_categoricals env categorical_config impute_rules =
     bind (lift (py_iter categorical_config))
       (mapM (build_array_categorical env impute_rules))"

text \<open>One element of the comprehension that builds the plain aggregates.\<close>

definition build_aggregate :: "pyval \<Rightarrow> pyval \<Rightarrow> (generator \<times> world, column_spec) prog" where
  "build_aggregate agimp aggregate =
     bind (lift (getitem aggregate ''quantity'')) (\<lambda>quantity'.
     bind (lift (getitem aggregate ''metrics'')) (\<lambda>metrics.
     bind (lift (py_get aggregate ''imputation'' (PDict []))) (\<lambda>imputation.
     bind (lift (py_dict agimp ''aggregate'' imputation)) (\<lambda>merged.
     bind (lift (py_get aggregate ''coltype'' PNone)) (\<lambda>coltype.
     ret (Aggregate quantity' metrics merged coltype))))))"

definition count_of :: "'a list \<Rightarrow> pyval" where
  "count_of xs = PInt (int (length xs))"

definition aggregation ::
  "env \<Rightarrow> pyval \<Rightarrow> pyval \<Rightarrow> pyval \<Rightarrow> (generator \<times> world, spacetime_aggregation) prog" where
  "aggregation env aggregation_config feature_dates state_table =
     bind (lift (py_len feature_dates)) (\<lambda>n.
     bind (logging_info
             ''Building collate.SpacetimeAggregation for config %s and %s as_of_dates''
             [aggregation_config, n]) (\<lambda>_.
     bind (lift (py_get aggregation_config ''aggregates_imputation'' (PDict []))) (\<lambda>agimp.
     bind (lift (py_get aggregation_config ''categoricals_imputation'' (PDict []))) (\<lambda>catimp.
     bind (lift (py_get aggregation_config ''array_categoricals_imputation'' (PDict [])))
       (\<lambda>arrcatimp.
     bind (lift (py_get aggregation_config ''aggregates'' (PList []))) (\<lambda>aggregate_config.
     bind (lift (py_iter aggregate_config)) (\<lambda>aggregate_list.
     bind (mapM (build_aggregate agimp) aggregate_list) (\<lambda>aggs.
     bind (logging_info ''Found %s quantity aggregates'' [count_of aggs]) (\<lambda>_.
     bind (lift (py_get aggregation_config ''categoricals'' (PList []))) (\<lambda>categorical_config.
     bind (build_categoricals env categorical_config catimp) (\<lambda>categoricals.
     bind (logging_info ''Found %s categorical aggregates'' [count_of categoricals]) (\<lambda>_.
     bind (lift (py_get aggregation_config ''array_categoricals'' (PList [])))
       (\<lambda>array_config.
     bind (build_array_categoricals env array_config arrcatimp) (\<lambda>array_categoricals.
     bind (logging_info ''Found %s array categorical aggregates''
             [count_of array_categoricals]) (\<lambda>_.
     bind (lift (getitem aggregation_config ''from_obj'')) (\<lambda>from_obj'.
     bind (lift (getitem aggregation_config ''intervals'')) (\<lambda>intervals'.
     bind (lift (getitem aggregation_config ''groups'')) (\<lambda>groups'.
     bind (lift (getitem aggregation_config ''knowledge_date_column'')) (\<lambda>date_column'.
     bind (lift (getitem aggregation_config ''prefix'')) (\<lambda>prefix'.
     (\<lambda>s. (Inr \<lparr>aggregates = aggs @ categoricals @ array_categoricals,
                 from_obj = TextClause from_obj',
                 intervals = intervals',
                 groups = groups',
                 as_of_dates = feature_dates,
                 cohort_table = state_table,
                 entity_column = entity_id_column (fst s),
                 date_column = date_column',
                 output_date_column = ''as_of_date'',
                 sa_feature_start_time = feature_start_time (fst s),
                 sa_features_schema_name = features_schema_name (fst s),
                 prefix = prefix',
                 sa_features_ignore_cohort = features_ignore_cohort (fst s)\<rparr>,
             s))))))))))))))))))))))"

subsection \<open>Materialization\<close>

text \<open>
  Modelled from the spec: the class \<^verbatim>\<open>FromObj\<close> of \<^verbatim>\<open>triage.component.collate\<close>, whose
  methods \<^verbatim>\<open>maybe_materialize\<close> and \<^verbatim>\<open>table\<close> are called here and defined elsewhere. By
  the spec, a source expression that looks like it should be persisted (it is not
  already a bare table reference) is materialized into the physical table of the
  target's name with a statement that creates the table if it is not there yet, and
  the aggregation's source expression is then the physical table; a source that is not
  materialized stays as it is. The criterion itself is a parameter
  (\<^const>\<open>looks_like_subquery\<close>). What \<^verbatim>\<open>table\<close> returns is a plain value: the name of
  the physical table, or the text of the source.
\<close>

record materialization_target =
  fo_from_obj :: pyval
  fo_name :: string
  fo_knowledge_date_column :: pyval

definition should_materialize :: "env \<Rightarrow> materialization_target \<Rightarrow> bool" where
  "should_materialize env fo = looks_like_subquery env (fo_from_obj fo)"

definition create_if_absent :: "string \<Rightarrow> (generator \<times> world, unit) prog" where
  "create_if_absent name = (\<lambda>s.
     (Inr (), fst s,
      (snd s)\<lparr>tables := (if name \<in> set (tables (snd s)) then tables (snd s)
                          else tables (snd s) @ [name])\<rparr>))"

definition maybe_materialize ::
  "env \<Rightarrow> materialization_target \<Rightarrow> (generator \<times> world, unit) prog" where
  "maybe_materialize env fo =
     (if should_materialize env fo then
        bind (store_execute env (CreateTableIfNotExists (fo_name fo) (fo_from_obj fo)))
          (\<lambda>_. create_if_absent (fo_name fo))
      else ret ())"

definition table :: "env \<Rightarrow> materialization_target \<Rightarrow> pyval" where
  "table env fo = (if should_materialize env fo then PStr (fo_name fo) else fo_from_obj fo)"

text \<open>The target that \<^verbatim>\<open>preprocess_aggregation\<close> builds from the text of the source
  expression: its name is the f-string
  \<^verbatim>\<open>f"{aggregation.features_schema_name}.{aggregation.prefix}"\<close>.\<close>

definition target_of :: "env \<Rightarrow> spacetime_aggregation \<Rightarrow> pyval \<Rightarrow> materialization_target" where
  "target_of env a expression =
     \<lparr>fo_from_obj = expression,
      fo_name = py_str (compound_str env) (sa_features_schema_name a) @ ''.'' @
                py_str (compound_str env) (prefix a),
      fo_knowledge_date_column = date_column a\<rparr>"

definition preprocess_aggregation ::
  "env \<Rightarrow> spacetime_aggregation \<Rightarrow> (generator \<times> world, spacetime_aggregation) prog" where
  "preprocess_aggregation env a =
     bind (case get_create_schema env a of
             None \<Rightarrow> ret ()
           | Some create_schema \<Rightarrow> store_execute env (CreateSchema create_schema)) (\<lambda>_.
     (\<lambda>s. if truthy (materialize_subquery_fromobjs (fst s)) then
             bind (lift (text_of (from_obj a))) (\<lambda>expression.
             bind (maybe_materialize env (target_of env a expression)) (\<lambda>_.
             ret (a\<lparr>from_obj := Plain (table env (target_of env a expression))\<rparr>))) s
           else ret a s))"

definition aggregations ::
  "env \<Rightarrow> pyval \<Rightarrow> pyval \<Rightarrow> pyval \<Rightarrow> (generator \<times> world, spacetime_aggregation list) prog"
  where
  "aggregations env feature_aggregation_config feature_dates state_table =
     bind (lift (py_iter feature_aggregation_config))
       (mapM (\<lambda>aggregation_config.
          bind (aggregation env aggregation_config feature_dates state_table)
            (preprocess_aggregation env)))"

subsection \<open>The module's functions\<close>

text \<open>The argument \<^verbatim>\<open>db_engine\<close> is the store of the world and the environment.\<close>

definition generate_spacetime_aggregations ::
  "env \<Rightarrow> pyval \<Rightarrow> pyval \<Rightarrow> pyval \<Rightarrow> pyval \<Rightarrow> pyval \<Rightarrow> pyval \<Rightarrow> pyval \<Rightarrow>
   (world, spacetime_aggregation list) prog" where
  "generate_spacetime_aggregations env feature_aggregation_config as_of_dates' cohort_table'
       features_schema_name' feature_start_time' materialize_subquery_fromobjs'
       features_ignore_cohort' = (\<lambda>w.
     let warned = \<not> truthy cohort_table';
         w1 = (if warned
               then logging WARNING ''No cohort table passed. Imputation will not be possible.'' [] w
               else w);
         ignore_cohort = (if warned then PBool True else features_ignore_cohort');
         r = aggregations env feature_aggregation_config as_of_dates' cohort_table'
               (init features_schema_name' feature_start_time' materialize_subquery_fromobjs'
                  ignore_cohort, w1)
     in (fst r, snd (snd r)))"

type_synonym feature_block_generator =
  "env \<Rightarrow> pyval \<Rightarrow> pyval \<Rightarrow> pyval \<Rightarrow> pyval \<Rightarrow> pyval \<Rightarrow> pyval \<Rightarrow> (string \<times> pyval) list \<Rightarrow>
   (world, spacetime_aggregation list) prog"

text \<open>The call \<^verbatim>\<open>generator(config_value, as_of_dates=..., ..., **kwargs)\<close> of
  \<^verbatim>\<open>generate_spacetime_aggregations\<close>: the only keyword it can still take is
  \<^verbatim>\<open>materialize_subquery_fromobjs\<close> (default \<^verbatim>\<open>True\<close>).\<close>

definition call_generate_spacetime_aggregations :: feature_block_generator where
  "call_generate_spacetime_aggregations env config_value as_of_dates' cohort_table'
       features_schema_name' feature_start_time' features_ignore_cohort' kwargs =
     (if filter (\<lambda>kv. fst kv \<noteq> ''materialize_subquery_fromobjs'') kwargs \<noteq> [] then
        lift (Inl TypeError)
      else
        generate_spacetime_aggregations env config_value as_of_dates' cohort_table'
          features_schema_name' feature_start_time'
          (case map_of kwargs ''materialize_subquery_fromobjs'' of
             None \<Rightarrow> PBool True | Some v \<Rightarrow> v)
          features_ignore_cohort')"

definition FEATURE_BLOCK_GENERATOR_LOOKUP :: "(string \<times> feature_block_generator) list" where
  "FEATURE_BLOCK_GENERATOR_LOOKUP =
     [(''spacetime_aggregations'', call_generate_spacetime_aggregations)]"

fun join :: "string \<Rightarrow> string list \<Rightarrow> string" where
  "join sep [] = []"
| "join sep [x] = x"
| "join sep (x # y # ys) = x @ sep @ join sep (y # ys)"

text \<open>The text of \<^verbatim>\<open>FEATURE_BLOCK_GENERATOR_LOOKUP.keys()\<close>.\<close>

definition dict_keys_str :: "string list \<Rightarrow> string" where
  "dict_keys_str ks = ''dict_keys(['' @ join '', '' (map (\<lambda>k. sq # k @ [sq]) ks) @ ''])''"

definition unrecognized :: "string \<Rightarrow> error" where
  "unrecognized config_key =
     ValueError (''feature config key '' @ config_key @
       '' does not correspond to a recognized feature generator.'' @
       ''  Recognized feature generator keys:'' @
       dict_keys_str (map fst FEATURE_BLOCK_GENERATOR_LOOKUP))"

text \<open>The loop over \<^verbatim>\<open>config.items()\<close>, with \<open>feature_blocks\<close> the list built so far.\<close>

fun feature_blocks_loop ::
  "env \<Rightarrow> pyval \<Rightarrow> pyval \<Rightarrow> pyval \<Rightarrow> pyval \<Rightarrow> pyval \<Rightarrow> (string \<times> pyval) list \<Rightarrow>
   spacetime_aggregation list \<Rightarrow> (string \<times> pyval) list \<Rightarrow>
   (world, spacetime_aggregation list) prog" where
  "feature_blocks_loop env dates cohort schema start ignore kwargs feature_blocks [] =
     ret feature_blocks"
| "feature_blocks_loop env dates cohort schema start ignore kwargs feature_blocks
     (item # items) =
     (case map_of FEATURE_BLOCK_GENERATOR_LOOKUP (fst item) of
        None \<Rightarrow> lift (Inl (unrecognized (fst item)))
      | Some feature_block_generator \<Rightarrow>
          bind (feature_block_generator env (snd item) dates cohort schema start ignore kwargs)
            (\<lambda>blocks.
               feature_blocks_loop env dates cohort schema start ignore kwargs
                 (feature_blocks @ blocks) items))"

definition feature_blocks_from_config ::
  "env \<Rightarrow> pyval \<Rightarrow> pyval \<Rightarrow> pyval \<Rightarrow> pyval \<Rightarrow> pyval \<Rightarrow> pyval \<Rightarrow> (string \<times> pyval) list \<Rightarrow>
   (world, spacetime_aggregation list) prog" where
  "feature_blocks_from_config env config as_of_dates' cohort_table' features_schema_name'
       feature_start_time' features_ignore_cohort' kwargs =
     (case config of
        PDict items \<Rightarrow>
          feature_blocks_loop env as_of_dates' cohort_table' features_schema_name'
            feature_start_time' features_ignore_cohort' kwargs [] items
      | _ \<Rightarrow> lift (Inl AttributeError))"

subsection \<open>Example inputs\<close>

text \<open>A store that knows one lookup query and never fails, an aggregation engine that
  asks for its schema, and a criterion that takes an expression with a blank in it for
  a subquery.\<close>

definition env0 :: env where
  "env0 =
     \<lparr>store_rows = (\<lambda>h q. if q = PStr ''select distinct kind from events''
                          then Inr [[PStr ''a'', PInt 1], [PStr ''b'', PInt 2]]
                          else Inl (StoreError ''unknown query'')),
      store_fails = (\<lambda>h c. None),
      get_create_schema = (\<lambda>a. Some ''CREATE SCHEMA IF NOT EXISTS features''),
      looks_like_subquery = (\<lambda>v. case v of PStr s \<Rightarrow> CHR '' '' \<in> set s | _ \<Rightarrow> False),
      compound_str = (\<lambda>v. [])\<rparr>"


definition w0 :: world where
  "w0 = \<lparr>executed = [], tables = [], logs = []\<rparr>"

definition g0 :: generator where
  "g0 = init (PStr ''features'') PNone (PBool True) (PBool False)"

text \<open>A categorical entry with a lookup query, one with a list of choices, and one with
  both, its list empty.\<close>

definition cat_query :: "(string \<times> pyval) list" where
  "cat_query =
     [(''column'', PStr ''kind''), (''metrics'', PList [PStr ''sum'']),
      (''choice_query'', PStr ''select distinct kind from events'')]"

definition cat_choices :: "(string \<times> pyval) list" where
  "cat_choices =
     [(''column'', PStr ''kind''), (''metrics'', PList [PStr ''max'']),
      (''choices'', PList [PStr ''x'', PStr ''y'']),
      (''choice_query'', PStr ''select distinct kind from events''),
      (''imputation'', PDict [(''all'', PDict [(''type'', PStr ''zero'')])])]"

definition cat_empty :: "(string \<times> pyval) list" where
  "cat_empty =
     [(''column'', PStr ''kind''), (''metrics'', PList [PStr ''max'']),
      (''choices'', PList []),
      (''choice_query'', PStr ''select distinct kind from events'')]"

definition block_a :: "(string \<times> pyval) list" where
  "block_a =
     [(''prefix'', PStr ''ev''), (''from_obj'', PStr ''(select * from events) as ev''),
      (''knowledge_date_column'', PStr ''date''), (''intervals'', PList [PStr ''1y'']),
      (''groups'', PList [PStr ''entity_id'']),
      (''aggregates'', PList [PDict [(''quantity'', PStr ''amount''),
                                     (''metrics'', PList [PStr ''sum''])]]),
      (''categoricals'', PList [PDict cat_query, PDict cat_choices]),
      (''array_categoricals'', PList [PDict cat_query])]"

definition block_b :: "(string \<times> pyval) list" where
  "block_b =
     [(''prefix'', PStr ''visits''), (''from_obj'', PStr ''visits''),
      (''knowledge_date_column'', PStr ''date''), (''intervals'', PList [PStr ''all'']),
      (''groups'', PList [PStr ''entity_id'']),
      (''categoricals'', PList [PDict cat_query])]"



subsection \<open>Assertions about programs\<close>

text \<open>A program started in a state of \<open>P\<close> ends in a state of \<open>E\<close> when it raises and
  in a state of \<open>Q\<close>, with its result, when it returns.\<close>

definition hoare ::
  "('s \<Rightarrow> bool) \<Rightarrow> ('s, 'a) prog \<Rightarrow> ('a \<Rightarrow> 's \<Rightarrow> bool) \<Rightarrow> ('s \<Rightarrow> bool) \<Rightarrow> bool" where
  "hoare P m Q E =
     (\<forall>s. P s \<longrightarrow>
        (\<forall>e s'. m s = (Inl e, s') \<longrightarrow> E s') \<and> (\<forall>x s'. m s = (Inr x, s') \<longrightarrow> Q x s'))"

fun is_lookup :: "store_call \<Rightarrow> bool" where
  "is_lookup (Lookup q) = True"
| "is_lookup _ = False"

text \<open>An invariant \<open>I\<close> that every effect of the generator keeps: a log record, a store
  call that is not a lookup, a change of the store's tables, and \<^verbatim>\<open>_compute_choices\<close>
  (which may leave it for \<open>E\<close> when it raises).\<close>

definition upheld ::
  "env \<Rightarrow> (generator \<times> world \<Rightarrow> bool) \<Rightarrow> (generator \<times> world \<Rightarrow> bool) \<Rightarrow> bool" where
  "upheld env I E =
     ((\<forall>s. I s \<longrightarrow> E s) \<and>
      (\<forall>s lvl fmt args. I s \<longrightarrow> I (fst s, logging lvl fmt args (snd s))) \<and>
      (\<forall>s c. I s \<longrightarrow> \<not> is_lookup c \<longrightarrow>
         I (fst s, (snd s)\<lparr>executed := executed (snd s) @ [c]\<rparr>)) \<and>
      (\<forall>s t. I s \<longrightarrow> I (fst s, (snd s)\<lparr>tables := t\<rparr>)) \<and>
      (\<forall>q. hoare I (compute_choices env q) (\<lambda>_. I) E))"



section \<open>Properties\<close>

subsection \<open>Running programs\<close>

lemma ret_Pair [simp]: "ret x = Pair (Inr x)"
  by (rule ext) (simp add: ret_def)

lemma lift_Pair [simp]: "lift r = Pair r"
  by (rule ext) (simp add: lift_def)

lemma bind_Pair_Inr [simp]: "bind (Pair (Inr x)) f = f x"
  by (rule ext) (simp add: bind_def)

lemma bind_Pair_Inl [simp]: "bind (Pair (Inl e)) f = Pair (Inl e)"
  by (rule ext) (simp add: bind_def)

lemma bind_Pair_right [simp]: "bind m (\<lambda>x. Pair (Inr x)) = m"
  by (rule ext) (simp add: bind_def split: prod.splits sum.splits)

lemma bind_logging_info [simp]:
  "bind (logging_info fmt args) f s = f () (fst s, logging INFO fmt args (snd s))"
  by (simp add: bind_def logging_info_def)

lemmas run_defs = bind_def lift_def ret_def logging_info_def store_execute_def

lemma executed_logging [simp]: "executed (logging lvl fmt args w) = executed w"
  by (simp add: logging_def)

lemma tables_logging [simp]: "tables (logging lvl fmt args w) = tables w"
  by (simp add: logging_def)

subsection \<open>Resolving the choices of an entry\<close>

lemma build_choices_configured:
  assumes "map_of d ''choices'' = Some choices"
  shows "build_choices env (PDict d) s =
           (case map_of d ''column'' of
              None \<Rightarrow> (Inl (KeyError ''column''), s)
            | Some c \<Rightarrow>
                (case map_of d ''metrics'' of
                   None \<Rightarrow> (Inl (KeyError ''metrics''), s)
                 | Some m \<Rightarrow>
                     (Inr choices, fst s,
                      logging INFO ''Found list of configured choices: %s'' [choices]
                        (logging INFO
                           ''Building categorical choices for column %s, metrics %s'' [c, m]
                           (snd s)))))"
  using assms by (simp add: build_choices_def split: option.splits)

lemma build_choices_lookup:
  assumes "map_of d ''choices'' = None"
    and "map_of d ''column'' = Some c" and "map_of d ''metrics'' = Some m"
  shows "build_choices env (PDict d) s =
           (case map_of d ''choice_query'' of
              None \<Rightarrow>
                (Inl (KeyError ''choice_query''), fst s,
                 logging INFO ''Building categorical choices for column %s, metrics %s''
                   [c, m] (snd s))
            | Some q \<Rightarrow>
                compute_choices env q
                  (fst s,
                   logging INFO ''Building categorical choices for column %s, metrics %s''
                     [c, m] (snd s)))"
  using assms by (simp add: build_choices_def split: option.splits)

text \<open>
  C5. An entry with an explicit list of choices (a key \<^verbatim>\<open>choices\<close>) resolves to that
  list as it is: the call makes no call on the store and leaves the cache alone, whether
  or not the entry has a lookup query too. The entries are those of a categorical or an
  array categorical definition, which name their \<^verbatim>\<open>column\<close> and \<^verbatim>\<open>metrics\<close>; without one
  of them the method raises the \<^verbatim>\<open>KeyError\<close> of its first log record, still without a
  store call.
\<close>

theorem explicit_choices_used_verbatim:
  assumes "map_of entry ''choices'' = Some choices"
  shows "executed (snd (snd (build_choices env (PDict entry) s))) = executed (snd s) \<and>
         fst (snd (build_choices env (PDict entry) s)) = fst s \<and>
         fst (build_choices env (PDict entry) s) =
           (if map_of entry ''column'' = None then Inl (KeyError ''column'')
            else if map_of entry ''metrics'' = None then Inl (KeyError ''metrics'')
            else Inr choices)"
  by (simp add: build_choices_configured [OF assms] split: option.splits)

theorem explicit_choices_used_verbatim_witness:
  "map_of cat_choices ''choices'' = Some (PList [PStr ''x'', PStr ''y'']) \<and>
   map_of cat_choices ''choice_query'' = Some (PStr ''select distinct kind from events'') \<and>
   executed (snd (snd (build_choices env0 (PDict cat_choices) (g0, w0)))) = [] \<and>
   fst (build_choices env0 (PDict cat_choices) (g0, w0)) = Inr (PList [PStr ''x'', PStr ''y''])"
  using explicit_choices_used_verbatim
    [of cat_choices "PList [PStr ''x'', PStr ''y'']" env0 "(g0, w0)"]
  by (simp add: cat_choices_def w0_def)

text \<open>
  C10. Whether the key \<^verbatim>\<open>choices\<close> is there decides, not whether its value is true: an
  entry (with its \<^verbatim>\<open>column\<close> and \<^verbatim>\<open>metrics\<close>) that binds \<^verbatim>\<open>choices\<close> resolves to the bound
  value, the empty list included, with no store call; an entry without the key goes on
  to its lookup query (a \<^verbatim>\<open>KeyError\<close> when it has none), and a call that reached the store
  came from an entry without the key.
\<close>

theorem choices_key_presence_decides:
  assumes "map_of entry ''column'' = Some c" and "map_of entry ''metrics'' = Some m"
  shows "build_choices env (PDict entry) s =
           (case map_of entry ''choices'' of
              Some choices \<Rightarrow>
                (Inr choices, fst s,
                 logging INFO ''Found list of configured choices: %s'' [choices]
                   (logging INFO ''Building categorical choices for column %s, metrics %s''
                      [c, m] (snd s)))
            | None \<Rightarrow>
                (case map_of entry ''choice_query'' of
                   None \<Rightarrow>
                     (Inl (KeyError ''choice_query''), fst s,
                      logging INFO ''Building categorical choices for column %s, metrics %s''
                        [c, m] (snd s))
                 | Some q \<Rightarrow>
                     compute_choices env q
                       (fst s,
                        logging INFO
                          ''Building categorical choices for column %s, metrics %s'' [c, m]
                          (snd s)))) \<and>
         (map_of entry ''choices'' = Some (PList []) \<longrightarrow>
            fst (build_choices env (PDict entry) s) = Inr (PList []) \<and>
            executed (snd (snd (build_choices env (PDict entry) s))) = executed (snd s)) \<and>
         (executed (snd (snd (build_choices env (PDict entry) s))) \<noteq> executed (snd s) \<longrightarrow>
            map_of entry ''choices'' = None)"
proof (cases "map_of entry ''choices''")
  case None
  then show ?thesis
    using build_choices_lookup [OF None assms, of env s] by simp
next
  case (Some choices)
  then show ?thesis
    using build_choices_configured [OF Some, of env s] assms by simp
qed

theorem choices_key_presence_decides_witness:
  "map_of cat_empty ''choices'' = Some (PList []) \<and>
   map_of cat_empty ''choice_query'' = Some (PStr ''select distinct kind from events'') \<and>
   fst (build_choices env0 (PDict cat_empty) (g0, w0)) = Inr (PList []) \<and>
   executed (snd (snd (build_choices env0 (PDict cat_empty) (g0, w0)))) = [] \<and>
   map_of cat_query ''choices'' = None \<and>
   fst (build_choices env0 (PDict cat_query) (g0, w0)) = Inr (PList [PStr ''a'', PStr ''b'']) \<and>
   executed (snd (snd (build_choices env0 (PDict cat_query) (g0, w0)))) =
     [Lookup (PStr ''select distinct kind from events'')]"
  using choices_key_presence_decides
      [of cat_empty "PStr ''kind''" "PList [PStr ''max'']" env0 "(g0, w0)"]
    choices_key_presence_decides
      [of cat_query "PStr ''kind''" "PList [PStr ''sum'']" env0 "(g0, w0)"]
  by (simp add: cat_empty_def cat_query_def w0_def g0_def init_def env0_def
      compute_choices_def logging_def)

subsection \<open>Merging imputation rules\<close>

lemma lookup_setitem:
  "lookup (setitem d k v) k' = (if py_key k = py_key k' then Some v else lookup d k')"
  by (induction d) auto

lemma lookup_update_all_absent:
  "map_of kw k = None \<Longrightarrow>
   lookup (update_all d (map (\<lambda>kv. (PStr (fst kv), snd kv)) kw)) (PStr k) = lookup d (PStr k)"
  by (induction kw arbitrary: d) (auto simp: lookup_setitem split: if_splits)

lemma py_key_PStr: "(PStr k = py_key key) = (key = PStr k)"
  by (cases key) auto

lemma lookup_update_all_strings:
  "distinct (map fst kw) \<Longrightarrow>
   lookup (update_all d (map (\<lambda>kv. (PStr (fst kv), snd kv)) kw)) key =
     (case key of
        PStr k \<Rightarrow> (case map_of kw k of Some v \<Rightarrow> Some v | None \<Rightarrow> lookup d key)
      | _ \<Rightarrow> lookup d key)"
proof (induction kw arbitrary: d)
  case Nil
  then show ?case by (simp split: pyval.splits)
next
  case (Cons kv kw)
  then have "map_of kw (fst kv) = None"
    by (simp add: map_of_eq_None_iff)
  with Cons show ?case
    by (cases kv) (auto simp: lookup_setitem py_key_PStr split: pyval.splits option.splits)
qed

lemma lookup_strings:
  "lookup (map (\<lambda>kv. (PStr (fst kv), snd kv)) d) key =
     (case key of PStr k \<Rightarrow> map_of d k | _ \<Rightarrow> None)"
  by (induction d) (auto simp: py_key_PStr split: pyval.splits)

lemma py_dict_coltype:
  assumes "py_dict base tag extra = Inr merged"
  shows "lookup merged (PStr ''coltype'') = Some (PStr tag)"
  using assms
  by (auto simp: py_dict_def lookup_update_all_absent lookup_setitem
      split: pyval.splits if_splits sum.splits)

lemma py_dict_merge:
  assumes "distinct (map fst override)" and "map_of override ''coltype'' = None"
  shows "\<exists>merged. py_dict (PDict dflt) tag (PDict override) = Inr merged \<and>
           (\<forall>key. lookup merged key =
              (case key of
                 PStr k \<Rightarrow>
                   if k = ''coltype'' then Some (PStr tag)
                   else (case map_of override k of Some v \<Rightarrow> Some v | None \<Rightarrow> map_of dflt k)
               | _ \<Rightarrow> None))"
  using assms
  by (auto simp: py_dict_def lookup_update_all_strings lookup_setitem lookup_strings py_key_PStr
      split: pyval.splits option.splits)

lemma bind_Inr_iff:
  "(bind m f s = (Inr y, s')) = (\<exists>x s1. m s = (Inr x, s1) \<and> f x s1 = (Inr y, s'))"
  by (auto simp: bind_def split: prod.splits sum.splits)

lemma fst_bind_Inr_iff:
  "(fst (bind m f s) = Inr y) = (\<exists>x s1. m s = (Inr x, s1) \<and> fst (f x s1) = Inr y)"
  by (auto simp: bind_def split: prod.splits sum.splits)

lemma build_aggregate_rules:
  assumes "fst (build_aggregate agimp aggregate s) = Inr spec"
  shows "\<exists>q m imp ct. spec = Aggregate q m (aggregate_impute_rules spec) ct \<and>
       py_get aggregate ''imputation'' (PDict []) = Inr imp \<and>
       py_dict agimp ''aggregate'' imp = Inr (aggregate_impute_rules spec)"
  using assms
  apply (simp add: build_aggregate_def fst_bind_Inr_iff lift_def)
  by auto

lemma build_categorical_Inr:
  assumes "fst (build_categorical env rules categorical s) = Inr spec"
  shows "\<exists>col ch m imp merged ct.
           spec = Categorical col ch m merged True ct \<and>
           fst (build_choices env categorical s) = Inr ch \<and>
           py_get categorical ''imputation'' (PDict []) = Inr imp \<and>
           py_dict rules ''categorical'' imp = Inr merged"
  using assms
  apply (simp add: build_categorical_def fst_bind_Inr_iff lift_def)
  by auto

lemma build_array_categorical_Inr:
  assumes "fst (build_array_categorical env rules categorical s) = Inr spec"
  shows "\<exists>col ch cl cd m imp merged ct.
           spec = Compare col ''@>'' cd m merged False False True ct \<and>
           fst (build_choices env categorical s) = Inr ch \<and>
           py_iter ch = Inr cl \<and> array_choices env [] cl = Inr cd \<and>
           py_get categorical ''imputation'' (PDict []) = Inr imp \<and>
           py_dict rules ''array_categorical'' imp = Inr merged"
  using assms
  apply (simp add: build_array_categorical_def fst_bind_Inr_iff lift_def)
  by auto

text \<open>
  C3 (amended). A feature-level override that is a mapping without the key \<^verbatim>\<open>coltype\<close>
  is merged over the type-level default: the result binds \<^verbatim>\<open>coltype\<close> to the tag of the
  call, every other key of the override to the override's value, and every remaining
  key of the default to the default's value, and nothing else. Each builder merges the
  entry's \<^verbatim>\<open>imputation\<close> block (or the empty mapping) over its type-level default with
  its own tag: \<^verbatim>\<open>aggregate\<close>, \<^verbatim>\<open>categorical\<close>, \<^verbatim>\<open>array_categorical\<close>; and whatever the
  default and the override are, rules that were built carry that tag.
\<close>

theorem imputation_override_wins:
  assumes "distinct (map fst override)" and "map_of override ''coltype'' = None"
  shows "(\<exists>merged. py_dict (PDict dflt) tag (PDict override) = Inr merged \<and>
            (\<forall>key. lookup merged key =
               (case key of
                  PStr k \<Rightarrow>
                    if k = ''coltype'' then Some (PStr tag)
                    else (case map_of override k of
                            Some v \<Rightarrow> Some v
                          | None \<Rightarrow> map_of dflt k)
                | _ \<Rightarrow> None))) \<and>
         (\<forall>spec. fst (build_aggregate agimp entry s) = Inr spec \<longrightarrow>
            (\<exists>q m imp ct. spec = Aggregate q m (aggregate_impute_rules spec) ct \<and>
               py_get entry ''imputation'' (PDict []) = Inr imp \<and>
               py_dict agimp ''aggregate'' imp = Inr (aggregate_impute_rules spec)) \<and>
            lookup (aggregate_impute_rules spec) (PStr ''coltype'') = Some (PStr ''aggregate'')) \<and>
         (\<forall>spec. fst (build_categorical env catimp entry s) = Inr spec \<longrightarrow>
            (\<exists>col ch m imp ct.
               spec = Categorical col ch m (categorical_impute_rules spec) True ct \<and>
               py_get entry ''imputation'' (PDict []) = Inr imp \<and>
               py_dict catimp ''categorical'' imp = Inr (categorical_impute_rules spec)) \<and>
            lookup (categorical_impute_rules spec) (PStr ''coltype'') =
              Some (PStr ''categorical'')) \<and>
         (\<forall>spec. fst (build_array_categorical env arrcatimp entry s) = Inr spec \<longrightarrow>
            (\<exists>col cd m imp ct.
               spec = Compare col ''@>'' cd m (compare_impute_rules spec) False False True ct \<and>
               py_get entry ''imputation'' (PDict []) = Inr imp \<and>
               py_dict arrcatimp ''array_categorical'' imp = Inr (compare_impute_rules spec)) \<and>
            lookup (compare_impute_rules spec) (PStr ''coltype'') =
              Some (PStr ''array_categorical''))"
proof (intro conjI allI impI)
  show "\<exists>merged. py_dict (PDict dflt) tag (PDict override) = Inr merged \<and>
            (\<forall>key. lookup merged key =
               (case key of
                  PStr k \<Rightarrow>
                    if k = ''coltype'' then Some (PStr tag)
                    else (case map_of override k of
                            Some v \<Rightarrow> Some v
                          | None \<Rightarrow> map_of dflt k)
                | _ \<Rightarrow> None))"
    by (rule py_dict_merge [OF assms])
next
  fix spec assume a: "fst (build_aggregate agimp entry s) = Inr spec"
  from build_aggregate_rules [OF a]
  show "\<exists>q m imp ct. spec = Aggregate q m (aggregate_impute_rules spec) ct \<and>
       py_get entry ''imputation'' (PDict []) = Inr imp \<and>
       py_dict agimp ''aggregate'' imp = Inr (aggregate_impute_rules spec)" .
  then show "lookup (aggregate_impute_rules spec) (PStr ''coltype'') = Some (PStr ''aggregate'')"
    using py_dict_coltype by blast
next
  fix spec assume a: "fst (build_categorical env catimp entry s) = Inr spec"
  from build_categorical_Inr [OF a]
  show "\<exists>col ch m imp ct.
               spec = Categorical col ch m (categorical_impute_rules spec) True ct \<and>
               py_get entry ''imputation'' (PDict []) = Inr imp \<and>
               py_dict catimp ''categorical'' imp = Inr (categorical_impute_rules spec)"
    by auto
  then show "lookup (categorical_impute_rules spec) (PStr ''coltype'') =
              Some (PStr ''categorical'')"
    using py_dict_coltype by blast
next
  fix spec assume a: "fst (build_array_categorical env arrcatimp entry s) = Inr spec"
  from build_array_categorical_Inr [OF a]
  show "\<exists>col cd m imp ct.
               spec = Compare col ''@>'' cd m (compare_impute_rules spec) False False True ct \<and>
               py_get entry ''imputation'' (PDict []) = Inr imp \<and>
               py_dict arrcatimp ''array_categorical'' imp = Inr (compare_impute_rules spec)"
    by auto
  then show "lookup (compare_impute_rules spec) (PStr ''coltype'') =
              Some (PStr ''array_categorical'')"
    using py_dict_coltype by blast
qed

theorem imputation_override_wins_witness:
  "distinct (map fst [(''b'', PInt 3), (''c'', PInt 4)]) \<and>
   map_of [(''b'', PInt 3), (''c'', PInt 4)] ''coltype'' = None \<and>
   py_dict (PDict [(''a'', PInt 1), (''b'', PInt 2)]) ''categorical''
       (PDict [(''b'', PInt 3), (''c'', PInt 4)]) =
     Inr [(PStr ''a'', PInt 1), (PStr ''b'', PInt 3), (PStr ''coltype'', PStr ''categorical''),
          (PStr ''c'', PInt 4)] \<and>
   fst (build_categorical env0 (PDict [(''all'', PDict [(''type'', PStr ''mean'')])])
          (PDict cat_choices) (g0, w0)) =
     Inr (Categorical (PStr ''kind'') (PList [PStr ''x'', PStr ''y'']) (PList [PStr ''max''])
            [(PStr ''all'', PDict [(''type'', PStr ''zero'')]),
             (PStr ''coltype'', PStr ''categorical'')]
            True PNone)"
proof -
  have h1: "distinct (map fst [(''b'', PInt 3), (''c'', PInt 4)])"
    by simp
  have h2: "map_of [(''b'', PInt 3), (''c'', PInt 4)] ''coltype'' = None"
    by simp
  have t: "\<exists>merged. py_dict (PDict [(''a'', PInt 1), (''b'', PInt 2)]) ''categorical''
             (PDict [(''b'', PInt 3), (''c'', PInt 4)]) = Inr merged"
    using imputation_override_wins [OF h1 h2, THEN conjunct1] by blast
  have c: "py_dict (PDict [(''a'', PInt 1), (''b'', PInt 2)]) ''categorical''
             (PDict [(''b'', PInt 3), (''c'', PInt 4)]) =
           Inr [(PStr ''a'', PInt 1), (PStr ''b'', PInt 3),
                (PStr ''coltype'', PStr ''categorical''), (PStr ''c'', PInt 4)]"
    by (simp add: py_dict_def)
  have b: "fst (build_categorical env0 (PDict [(''all'', PDict [(''type'', PStr ''mean'')])])
             (PDict cat_choices) (g0, w0)) =
           Inr (Categorical (PStr ''kind'') (PList [PStr ''x'', PStr ''y''])
                  (PList [PStr ''max''])
                  [(PStr ''all'', PDict [(''type'', PStr ''zero'')]),
                   (PStr ''coltype'', PStr ''categorical'')]
                  True PNone)"
    by (simp add: py_dict_def build_categorical_def build_choices_def cat_choices_def run_defs)
  show ?thesis
    using t h1 h2 c b by simp
qed

text \<open>
  The claim as it stands fails for an override that binds \<^verbatim>\<open>coltype\<close> itself: the call
  \<^verbatim>\<open>dict(default, coltype=tag, **override)\<close> then has the keyword twice and raises
  \<^verbatim>\<open>TypeError\<close>, so no rule set is built.
\<close>

theorem imputation_override_coltype_counterexample:
  "py_dict (PDict [(''a'', PInt 1), (''b'', PInt 2)]) ''categorical''
       (PDict [(''b'', PInt 3), (''coltype'', PStr ''categorical'')]) = Inl TypeError \<and>
   fst (build_categorical env0 (PDict [(''a'', PInt 1), (''b'', PInt 2)])
          (PDict [(''column'', PStr ''kind''), (''metrics'', PList [PStr ''max'']),
                  (''choices'', PList [PStr ''x'']),
                  (''imputation'', PDict [(''b'', PInt 3), (''coltype'', PStr ''categorical'')])])
          (g0, w0)) = Inl TypeError"
  by (simp add: py_dict_def build_categorical_def build_choices_def run_defs)

subsection \<open>The column specifications of categoricals\<close>

lemma mapM_chain:
  "mapM f xs s = (Inr ys, s') \<Longrightarrow>
   \<exists>ss. length ss = Suc (length xs) \<and> length ys = length xs \<and> ss ! 0 = s \<and>
        ss ! length xs = s' \<and>
        (\<forall>i < length xs. f (xs ! i) (ss ! i) = (Inr (ys ! i), ss ! Suc i))"
proof (induction xs arbitrary: s ys)
  case Nil
  then show ?case by (auto intro: exI [of _ "[s]"])
next
  case (Cons x xs)
  from Cons.prems obtain y s1 zs where
    y: "f x s = (Inr y, s1)" and zs: "mapM f xs s1 = (Inr zs, s')" and ys: "ys = y # zs"
    by (auto simp: bind_Inr_iff)
  from Cons.IH [OF zs] obtain ss where ss: "length ss = Suc (length xs)" "length zs = length xs"
    "ss ! 0 = s1" "ss ! length xs = s'"
    "\<forall>i < length xs. f (xs ! i) (ss ! i) = (Inr (zs ! i), ss ! Suc i)"
    by blast
  have "\<forall>i < length (x # xs). f ((x # xs) ! i) ((s # ss) ! i) = (Inr (ys ! i), (s # ss) ! Suc i)"
  proof (intro allI impI)
    fix i assume "i < length (x # xs)"
    then show "f ((x # xs) ! i) ((s # ss) ! i) = (Inr (ys ! i), (s # ss) ! Suc i)"
      using y ys ss by (cases i) auto
  qed
  with ss ys show ?case
    by (intro exI [of _ "s # ss"]) auto
qed

lemma setitem_keys:
  "(k', v') \<in> set (setitem d k v) \<Longrightarrow> (k', v') \<in> set d \<or> (py_key k' = py_key k \<and> v' = v)"
  by (induction d) (auto split: if_splits)

lemma array_choices_entries:
  "array_choices env d cs = Inr cd \<Longrightarrow> kv \<in> set cd \<Longrightarrow>
   kv \<in> set d \<or> (\<exists>c \<in> set cs. py_key (fst kv) = py_key c \<and> snd kv = array_literal env c)"
proof (induction cs arbitrary: d)
  case Nil
  then show ?case by simp
next
  case (Cons c cs)
  from Cons.prems(1) have h: "hashable c"
    and r: "array_choices env (setitem d c (array_literal env c)) cs = Inr cd"
    by (auto split: if_splits)
  from Cons.IH [OF r Cons.prems(2)] show ?case
    using setitem_keys [of "fst kv" "snd kv" d c "array_literal env c"] by auto
qed

lemma array_choices_defined:
  "array_choices env d cs = Inr cd \<Longrightarrow> lookup d k \<noteq> None \<or> k \<in> set cs \<Longrightarrow> lookup cd k \<noteq> None"
proof (induction cs arbitrary: d)
  case Nil
  then show ?case by simp
next
  case (Cons c cs)
  from Cons.prems(1) have r: "array_choices env (setitem d c (array_literal env c)) cs = Inr cd"
    by (auto split: if_splits)
  from Cons.prems(2) have "lookup (setitem d c (array_literal env c)) k \<noteq> None \<or> k \<in> set cs"
    by (auto simp: lookup_setitem)
  from Cons.IH [OF r this] show ?case .
qed

lemma lookup_in_set: "lookup d k = Some v \<Longrightarrow> \<exists>k'. (k', v) \<in> set d \<and> py_key k' = py_key k"
  by (induction d) (auto split: if_splits)

lemma array_choices_lookup:
  assumes "array_choices env [] cs = Inr cd" and "c \<in> set cs"
  shows "\<exists>c' \<in> set cs. py_key c' = py_key c \<and> lookup cd c = Some (array_literal env c')"
proof -
  from array_choices_defined [OF assms(1), of c] assms(2) obtain v where v: "lookup cd c = Some v"
    by auto
  from lookup_in_set [OF v] obtain k' where k: "(k', v) \<in> set cd" "py_key k' = py_key c"
    by blast
  from array_choices_entries [OF assms(1) k(1)] obtain c' where
    "c' \<in> set cs" "py_key k' = py_key c'" "v = array_literal env c'"
    by auto
  with k v show ?thesis by auto
qed

lemma build_categorical_tied:
  assumes "build_categorical env rules entry s = (Inr spec, s')"
  shows "\<exists>col ch m r ct.
           spec = Categorical col ch m r True ct \<and>
           getitem entry ''column'' = Inr col \<and> getitem entry ''metrics'' = Inr m \<and>
           build_choices env entry s = (Inr ch, s')"
  using assms
  by (auto simp: build_categorical_def bind_Inr_iff lift_def)

lemma build_array_categorical_tied:
  assumes "build_array_categorical env rules entry s = (Inr spec, s')"
  shows "\<exists>col cd m r ct ch cs.
           spec = Compare col ''@>'' cd m r False False True ct \<and>
           getitem entry ''column'' = Inr col \<and> getitem entry ''metrics'' = Inr m \<and>
           build_choices env entry s = (Inr ch, s') \<and> py_iter ch = Inr cs \<and>
           array_choices env [] cs = Inr cd"
  using assms
  by (auto simp: build_array_categorical_def bind_Inr_iff lift_def)

text \<open>
  C8. When \<^verbatim>\<open>_build_categoricals\<close> returns, its result has one specification for each
  entry of the configuration, in order: a \<^verbatim>\<open>Categorical\<close> of the entry's column with
  \<^verbatim>\<open>include_null=True\<close> and the choices that \<^verbatim>\<open>_build_choices\<close> resolves for that entry in
  the state the entries before it have left. When \<^verbatim>\<open>_build_array_categoricals\<close> returns,
  the specification of each entry is a \<^verbatim>\<open>Compare\<close> of the entry's column with the operator
  \<^verbatim>\<open>@>\<close>, \<^verbatim>\<open>include_null=True\<close>, \<^verbatim>\<open>quote_choices=False\<close> (and \<^verbatim>\<open>op_in_name=False\<close>), whose
  choices are the dictionary built from the choices resolved for that entry: it binds
  every one of them to the text \<^verbatim>\<open>array['<choice>'::varchar]\<close> of a resolved choice with
  the same key, and holds nothing else.
\<close>

theorem categorical_specs_surface_null:
  "(\<forall>specs s'. build_categoricals env config rules s = (Inr specs, s') \<longrightarrow>
      (\<exists>entries ss.
         py_iter config = Inr entries \<and> length specs = length entries \<and>
         length ss = Suc (length entries) \<and> ss ! 0 = s \<and> ss ! length entries = s' \<and>
         (\<forall>i < length entries. \<exists>col ch m r ct.
            build_categorical env rules (entries ! i) (ss ! i) = (Inr (specs ! i), ss ! Suc i) \<and>
            specs ! i = Categorical col ch m r True ct \<and>
            getitem (entries ! i) ''column'' = Inr col \<and>
            build_choices env (entries ! i) (ss ! i) = (Inr ch, ss ! Suc i)))) \<and>
   (\<forall>specs s'. build_array_categoricals env config rules s = (Inr specs, s') \<longrightarrow>
      (\<exists>entries ss.
         py_iter config = Inr entries \<and> length specs = length entries \<and>
         length ss = Suc (length entries) \<and> ss ! 0 = s \<and> ss ! length entries = s' \<and>
         (\<forall>i < length entries. \<exists>col cd m r ct ch cs.
            build_array_categorical env rules (entries ! i) (ss ! i) =
              (Inr (specs ! i), ss ! Suc i) \<and>
            specs ! i = Compare col ''@>'' cd m r False False True ct \<and>
            getitem (entries ! i) ''column'' = Inr col \<and>
            build_choices env (entries ! i) (ss ! i) = (Inr ch, ss ! Suc i) \<and>
            py_iter ch = Inr cs \<and> array_choices env [] cs = Inr cd \<and>
            (\<forall>c \<in> set cs. \<exists>c' \<in> set cs. py_key c' = py_key c \<and>
               lookup cd c =
                 Some (''array['' @ [sq] @ py_str (compound_str env) c' @ [sq] @ ''::varchar]'')) \<and>
            (\<forall>kv \<in> set cd. \<exists>c \<in> set cs. py_key (fst kv) = py_key c \<and>
               snd kv = ''array['' @ [sq] @ py_str (compound_str env) c @ [sq] @ ''::varchar]''))))"
proof (intro conjI allI impI)
  fix specs s'
  assume "build_categoricals env config rules s = (Inr specs, s')"
  then obtain entries where e: "py_iter config = Inr entries"
    and m: "mapM (build_categorical env rules) entries s = (Inr specs, s')"
    by (auto simp: build_categoricals_def bind_Inr_iff lift_def)
  from mapM_chain [OF m] obtain ss where ss: "length ss = Suc (length entries)"
    "length specs = length entries" "ss ! 0 = s" "ss ! length entries = s'"
    and st: "\<forall>i < length entries.
          build_categorical env rules (entries ! i) (ss ! i) = (Inr (specs ! i), ss ! Suc i)"
    by blast
  have "\<forall>i < length entries. \<exists>col ch m r ct.
            build_categorical env rules (entries ! i) (ss ! i) = (Inr (specs ! i), ss ! Suc i) \<and>
            specs ! i = Categorical col ch m r True ct \<and>
            getitem (entries ! i) ''column'' = Inr col \<and>
            build_choices env (entries ! i) (ss ! i) = (Inr ch, ss ! Suc i)"
  proof (intro allI impI)
    fix i assume "i < length entries"
    with st have b: "build_categorical env rules (entries ! i) (ss ! i) =
        (Inr (specs ! i), ss ! Suc i)" by simp
    from build_categorical_tied [OF b] b
    show "\<exists>col ch m r ct.
            build_categorical env rules (entries ! i) (ss ! i) = (Inr (specs ! i), ss ! Suc i) \<and>
            specs ! i = Categorical col ch m r True ct \<and>
            getitem (entries ! i) ''column'' = Inr col \<and>
            build_choices env (entries ! i) (ss ! i) = (Inr ch, ss ! Suc i)"
      by blast
  qed
  with e ss show "\<exists>entries ss.
         py_iter config = Inr entries \<and> length specs = length entries \<and>
         length ss = Suc (length entries) \<and> ss ! 0 = s \<and> ss ! length entries = s' \<and>
         (\<forall>i < length entries. \<exists>col ch m r ct.
            build_categorical env rules (entries ! i) (ss ! i) = (Inr (specs ! i), ss ! Suc i) \<and>
            specs ! i = Categorical col ch m r True ct \<and>
            getitem (entries ! i) ''column'' = Inr col \<and>
            build_choices env (entries ! i) (ss ! i) = (Inr ch, ss ! Suc i))"
    by blast
next
  fix specs s'
  assume "build_array_categoricals env config rules s = (Inr specs, s')"
  then obtain entries where e: "py_iter config = Inr entries"
    and m: "mapM (build_array_categorical env rules) entries s = (Inr specs, s')"
    by (auto simp: build_array_categoricals_def bind_Inr_iff lift_def)
  from mapM_chain [OF m] obtain ss where ss: "length ss = Suc (length entries)"
    "length specs = length entries" "ss ! 0 = s" "ss ! length entries = s'"
    and st: "\<forall>i < length entries.
          build_array_categorical env rules (entries ! i) (ss ! i) =
            (Inr (specs ! i), ss ! Suc i)"
    by blast
  have "\<forall>i < length entries. \<exists>col cd m r ct ch cs.
            build_array_categorical env rules (entries ! i) (ss ! i) =
              (Inr (specs ! i), ss ! Suc i) \<and>
            specs ! i = Compare col ''@>'' cd m r False False True ct \<and>
            getitem (entries ! i) ''column'' = Inr col \<and>
            build_choices env (entries ! i) (ss ! i) = (Inr ch, ss ! Suc i) \<and>
            py_iter ch = Inr cs \<and> array_choices env [] cs = Inr cd \<and>
            (\<forall>c \<in> set cs. \<exists>c' \<in> set cs. py_key c' = py_key c \<and>
               lookup cd c =
                 Some (''array['' @ [sq] @ py_str (compound_str env) c' @ [sq] @ ''::varchar]'')) \<and>
            (\<forall>kv \<in> set cd. \<exists>c \<in> set cs. py_key (fst kv) = py_key c \<and>
               snd kv = ''array['' @ [sq] @ py_str (compound_str env) c @ [sq] @ ''::varchar]'')"
  proof (intro allI impI)
    fix i assume "i < length entries"
    with st have b: "build_array_categorical env rules (entries ! i) (ss ! i) =
        (Inr (specs ! i), ss ! Suc i)" by simp
    from build_array_categorical_tied [OF b] obtain col cd m r ct ch cs where
      t: "specs ! i = Compare col ''@>'' cd m r False False True ct"
      "getitem (entries ! i) ''column'' = Inr col"
      "build_choices env (entries ! i) (ss ! i) = (Inr ch, ss ! Suc i)"
      "py_iter ch = Inr cs" and cd: "array_choices env [] cs = Inr cd"
      by blast
    have l: "\<forall>c \<in> set cs. \<exists>c' \<in> set cs. py_key c' = py_key c \<and>
               lookup cd c =
                 Some (''array['' @ [sq] @ py_str (compound_str env) c' @ [sq] @ ''::varchar]'')"
      using array_choices_lookup [OF cd] by (simp add: array_literal_def)
    have k: "\<forall>kv \<in> set cd. \<exists>c \<in> set cs. py_key (fst kv) = py_key c \<and>
               snd kv = ''array['' @ [sq] @ py_str (compound_str env) c @ [sq] @ ''::varchar]''"
      using array_choices_entries [OF cd] by (simp add: array_literal_def)
    from b t cd l k
    show "\<exists>col cd m r ct ch cs.
            build_array_categorical env rules (entries ! i) (ss ! i) =
              (Inr (specs ! i), ss ! Suc i) \<and>
            specs ! i = Compare col ''@>'' cd m r False False True ct \<and>
            getitem (entries ! i) ''column'' = Inr col \<and>
            build_choices env (entries ! i) (ss ! i) = (Inr ch, ss ! Suc i) \<and>
            py_iter ch = Inr cs \<and> array_choices env [] cs = Inr cd \<and>
            (\<forall>c \<in> set cs. \<exists>c' \<in> set cs. py_key c' = py_key c \<and>
               lookup cd c =
                 Some (''array['' @ [sq] @ py_str (compound_str env) c' @ [sq] @ ''::varchar]'')) \<and>
            (\<forall>kv \<in> set cd. \<exists>c \<in> set cs. py_key (fst kv) = py_key c \<and>
               snd kv = ''array['' @ [sq] @ py_str (compound_str env) c @ [sq] @ ''::varchar]'')"
      by blast
  qed
  with e ss show "\<exists>entries ss.
         py_iter config = Inr entries \<and> length specs = length entries \<and>
         length ss = Suc (length entries) \<and> ss ! 0 = s \<and> ss ! length entries = s' \<and>
         (\<forall>i < length entries. \<exists>col cd m r ct ch cs.
            build_array_categorical env rules (entries ! i) (ss ! i) =
              (Inr (specs ! i), ss ! Suc i) \<and>
            specs ! i = Compare col ''@>'' cd m r False False True ct \<and>
            getitem (entries ! i) ''column'' = Inr col \<and>
            build_choices env (entries ! i) (ss ! i) = (Inr ch, ss ! Suc i) \<and>
            py_iter ch = Inr cs \<and> array_choices env [] cs = Inr cd \<and>
            (\<forall>c \<in> set cs. \<exists>c' \<in> set cs. py_key c' = py_key c \<and>
               lookup cd c =
                 Some (''array['' @ [sq] @ py_str (compound_str env) c' @ [sq] @ ''::varchar]'')) \<and>
            (\<forall>kv \<in> set cd. \<exists>c \<in> set cs. py_key (fst kv) = py_key c \<and>
               snd kv = ''array['' @ [sq] @ py_str (compound_str env) c @ [sq] @ ''::varchar]''))"
    by blast
qed

theorem categorical_specs_surface_null_witness:
  "fst (build_categoricals env0 (PList [PDict cat_query]) (PDict []) (g0, w0)) =
     Inr [Categorical (PStr ''kind'') (PList [PStr ''a'', PStr ''b'']) (PList [PStr ''sum''])
            [(PStr ''coltype'', PStr ''categorical'')] True PNone] \<and>
   fst (build_array_categoricals env0 (PList [PDict cat_choices]) (PDict []) (g0, w0)) =
     Inr [Compare (PStr ''kind'') ''@>''
            [(PStr ''x'', ''array['' @ [sq] @ ''x'' @ [sq] @ ''::varchar]''),
             (PStr ''y'', ''array['' @ [sq] @ ''y'' @ [sq] @ ''::varchar]'')]
            (PList [PStr ''max''])
            [(PStr ''coltype'', PStr ''array_categorical''),
             (PStr ''all'', PDict [(''type'', PStr ''zero'')])]
            False False True PNone]"
proof -
  have c: "fst (build_categoricals env0 (PList [PDict cat_query]) (PDict []) (g0, w0)) =
     Inr [Categorical (PStr ''kind'') (PList [PStr ''a'', PStr ''b'']) (PList [PStr ''sum''])
            [(PStr ''coltype'', PStr ''categorical'')] True PNone]"
    by (simp add: build_categoricals_def build_categorical_def build_choices_def
        compute_choices_def cat_query_def py_dict_def run_defs g0_def init_def env0_def)
  have a: "fst (build_array_categoricals env0 (PList [PDict cat_choices]) (PDict []) (g0, w0)) =
     Inr [Compare (PStr ''kind'') ''@>''
            [(PStr ''x'', ''array['' @ [sq] @ ''x'' @ [sq] @ ''::varchar]''),
             (PStr ''y'', ''array['' @ [sq] @ ''y'' @ [sq] @ ''::varchar]'')]
            (PList [PStr ''max''])
            [(PStr ''coltype'', PStr ''array_categorical''),
             (PStr ''all'', PDict [(''type'', PStr ''zero'')])]
            False False True PNone]"
    by (simp add: build_array_categoricals_def build_array_categorical_def build_choices_def
        array_literal_def cat_choices_def py_dict_def run_defs)
  obtain specs s' where r: "build_array_categoricals env0 (PList [PDict cat_choices]) (PDict [])
      (g0, w0) = (Inr specs, s')"
    using a
    by (cases "build_array_categoricals env0 (PList [PDict cat_choices]) (PDict []) (g0, w0)")
      auto
  from categorical_specs_surface_null [THEN conjunct2, rule_format, OF r]
  have "\<exists>entries. py_iter (PList [PDict cat_choices]) = Inr entries \<and>
          length specs = length entries"
    by blast
  then have "length specs = 1" by auto
  with c a show ?thesis by simp
qed

subsection \<open>Invariants of the generator\<close>

lemma hoareI:
  "(\<And>s e s'. P s \<Longrightarrow> m s = (Inl e, s') \<Longrightarrow> E s') \<Longrightarrow>
   (\<And>s x s'. P s \<Longrightarrow> m s = (Inr x, s') \<Longrightarrow> Q x s') \<Longrightarrow> hoare P m Q E"
  by (auto simp: hoare_def)

lemma hoare_Inr: "hoare P m Q E \<Longrightarrow> P s \<Longrightarrow> m s = (Inr x, s') \<Longrightarrow> Q x s'"
  by (auto simp: hoare_def)

lemma hoare_Inl: "hoare P m Q E \<Longrightarrow> P s \<Longrightarrow> m s = (Inl e, s') \<Longrightarrow> E s'"
  by (auto simp: hoare_def)

lemma hoare_bind:
  "hoare P m R E \<Longrightarrow> (\<And>x. hoare (R x) (f x) Q E) \<Longrightarrow> hoare P (bind m f) Q E"
  unfolding hoare_def bind_def by (fastforce split: prod.splits sum.splits)

lemma keeps_bind:
  "hoare I m (\<lambda>_. I) E \<Longrightarrow> (\<And>x. hoare I (f x) Q E) \<Longrightarrow> hoare I (bind m f) Q E"
  by (rule hoare_bind)

lemma keeps_lift: "upheld env I E \<Longrightarrow> hoare I (lift r) (\<lambda>_. I) E"
  by (cases r) (auto simp: hoare_def upheld_def)

lemma keeps_ret: "hoare I (ret x) (\<lambda>_. I) E"
  by (auto simp: hoare_def)

lemma keeps_Pair_Inr: "hoare I (Pair (Inr x)) (\<lambda>_. I) E"
  by (auto simp: hoare_def)

lemma keeps_logging_info: "upheld env I E \<Longrightarrow> hoare I (logging_info fmt args) (\<lambda>_. I) E"
  by (auto simp: hoare_def upheld_def logging_info_def)

lemma keeps_store_execute:
  "upheld env I E \<Longrightarrow> \<not> is_lookup c \<Longrightarrow> hoare I (store_execute env c) (\<lambda>_. I) E"
  by (auto simp: hoare_def upheld_def store_execute_def split: option.splits)

lemma keeps_create_if_absent: "upheld env I E \<Longrightarrow> hoare I (create_if_absent name) (\<lambda>_. I) E"
  by (auto simp: hoare_def upheld_def create_if_absent_def)

lemma keeps_compute_choices: "upheld env I E \<Longrightarrow> hoare I (compute_choices env q) (\<lambda>_. I) E"
  by (simp add: upheld_def)

lemma keeps_mapM:
  "(\<And>x. hoare I (f x) (\<lambda>_. I) E) \<Longrightarrow> hoare I (mapM f xs) (\<lambda>_. I) E"
  by (induction xs) (auto intro!: keeps_Pair_Inr keeps_bind)

lemma keeps_if:
  "hoare I a Q E \<Longrightarrow> hoare I b Q E \<Longrightarrow> hoare I (if c then a else b) Q E"
  by simp

lemmas keeps_intros =
  keeps_bind keeps_lift keeps_ret keeps_logging_info keeps_create_if_absent
  keeps_compute_choices keeps_mapM keeps_if

lemma keeps_build_choices:
  "upheld env I E \<Longrightarrow> hoare I (build_choices env categorical) (\<lambda>_. I) E"
  unfolding build_choices_def by (intro keeps_intros)

lemma keeps_build_categorical:
  "upheld env I E \<Longrightarrow> hoare I (build_categorical env rules categorical) (\<lambda>_. I) E"
  unfolding build_categorical_def by (intro keeps_intros keeps_build_choices)

lemma keeps_build_array_categorical:
  "upheld env I E \<Longrightarrow> hoare I (build_array_categorical env rules categorical) (\<lambda>_. I) E"
  unfolding build_array_categorical_def by (intro keeps_intros keeps_build_choices)

lemma keeps_build_categoricals:
  "upheld env I E \<Longrightarrow> hoare I (build_categoricals env config rules) (\<lambda>_. I) E"
  unfolding build_categoricals_def by (intro keeps_intros keeps_build_categorical)

lemma keeps_build_array_categoricals:
  "upheld env I E \<Longrightarrow> hoare I (build_array_categoricals env config rules) (\<lambda>_. I) E"
  unfolding build_array_categoricals_def by (intro keeps_intros keeps_build_array_categorical)

lemma keeps_build_aggregate:
  "upheld env I E \<Longrightarrow> hoare I (build_aggregate agimp aggregate) (\<lambda>_. I) E"
  unfolding build_aggregate_def by (intro keeps_intros)

lemma keeps_final: "hoare I (\<lambda>s. (Inr (F s), s)) (\<lambda>_. I) E"
  by (auto simp: hoare_def)

lemma keeps_aggregation:
  "upheld env I E \<Longrightarrow> hoare I (aggregation env config dates state) (\<lambda>_. I) E"
  unfolding aggregation_def
  by (intro keeps_intros keeps_build_aggregate keeps_build_categoricals
      keeps_build_array_categoricals keeps_final)

lemma keeps_maybe_materialize:
  "upheld env I E \<Longrightarrow> hoare I (maybe_materialize env fo) (\<lambda>_. I) E"
  unfolding maybe_materialize_def
  by (intro keeps_intros keeps_store_execute) simp_all

lemma keeps_preprocess_aggregation:
  assumes "upheld env I E"
  shows "hoare I (preprocess_aggregation env a) (\<lambda>_. I) E"
  unfolding preprocess_aggregation_def
proof (intro keeps_bind)
  show "hoare I (case get_create_schema env a of None \<Rightarrow> ret ()
         | Some create_schema \<Rightarrow> store_execute env (CreateSchema create_schema)) (\<lambda>_. I) E"
    using assms by (auto split: option.splits intro!: keeps_Pair_Inr keeps_store_execute)
next
  fix x :: unit
  have "hoare I (bind (lift (text_of (from_obj a))) (\<lambda>expression.
             bind (maybe_materialize env (target_of env a expression)) (\<lambda>_.
             ret (a\<lparr>from_obj := Plain (table env (target_of env a expression))\<rparr>))))
          (\<lambda>_. I) E"
    using assms by (intro keeps_intros keeps_maybe_materialize)
  moreover have "hoare I (ret a) (\<lambda>_. I) E"
    by (rule keeps_ret)
  ultimately show "hoare I (\<lambda>s. if truthy (materialize_subquery_fromobjs (fst s)) then
             bind (lift (text_of (from_obj a))) (\<lambda>expression.
             bind (maybe_materialize env (target_of env a expression)) (\<lambda>_.
             ret (a\<lparr>from_obj := Plain (table env (target_of env a expression))\<rparr>))) s
           else ret a s) (\<lambda>_. I) E"
    by (auto simp: hoare_def)
qed

lemma keeps_aggregations:
  "upheld env I E \<Longrightarrow> hoare I (aggregations env config dates state) (\<lambda>_. I) E"
  unfolding aggregations_def
  by (intro keeps_intros keeps_aggregation keeps_preprocess_aggregation)

lemma aggregation_Inr:
  assumes "aggregation env config dates state s = (Inr a, s')"
  shows "sa_features_ignore_cohort a = features_ignore_cohort (fst s') \<and>
         sa_features_schema_name a = features_schema_name (fst s') \<and>
         sa_feature_start_time a = feature_start_time (fst s') \<and>
         entity_column a = entity_id_column (fst s') \<and>
         output_date_column a = ''as_of_date'' \<and>
         as_of_dates a = dates \<and> cohort_table a = state \<and>
         (\<exists>expression. getitem config ''from_obj'' = Inr expression \<and>
            from_obj a = TextClause expression) \<and>
         getitem config ''intervals'' = Inr (intervals a) \<and>
         getitem config ''groups'' = Inr (groups a) \<and>
         getitem config ''knowledge_date_column'' = Inr (date_column a) \<and>
         getitem config ''prefix'' = Inr (prefix a)"
  using assms unfolding aggregation_def
  by (auto simp: bind_Inr_iff lift_def)

lemma preprocess_aggregation_Inr:
  assumes "preprocess_aggregation env a s = (Inr b, s')"
  shows "sa_features_ignore_cohort b = sa_features_ignore_cohort a \<and>
         sa_features_schema_name b = sa_features_schema_name a \<and>
         prefix b = prefix a \<and> aggregates b = aggregates a \<and> fst s' = fst s"
  using assms unfolding preprocess_aggregation_def maybe_materialize_def
  by (auto simp: bind_Inr_iff store_execute_def create_if_absent_def
      split: option.splits if_splits sum.splits)

subsection \<open>The order of the feature blocks\<close>

lemma bind_assoc: "bind (bind m f) g = bind m (\<lambda>x. bind (f x) g)"
  by (rule ext) (simp add: bind_def split: prod.splits sum.splits)

lemma mapM_append:
  "mapM f (xs @ ys) = bind (mapM f xs) (\<lambda>as. bind (mapM f ys) (\<lambda>bs. ret (as @ bs)))"
proof (induction xs)
  case Nil
  show ?case by simp
next
  case (Cons x xs)
  then show ?case by (simp add: bind_assoc)
qed

lemma feature_blocks_loop_prepend:
  "feature_blocks_loop env dates cohort schema start ignore kwargs (a @ b) items =
   bind (feature_blocks_loop env dates cohort schema start ignore kwargs b items)
     (\<lambda>blocks. ret (a @ blocks))"
proof (induction items arbitrary: b)
  case Nil
  show ?case by simp
next
  case (Cons item items)
  have "feature_blocks_loop env dates cohort schema start ignore kwargs (a @ b @ x) items =
        bind (feature_blocks_loop env dates cohort schema start ignore kwargs (b @ x) items)
          (\<lambda>blocks. ret (a @ blocks))" for x
    by (rule Cons.IH)
  then show ?case
    by (cases "map_of FEATURE_BLOCK_GENERATOR_LOOKUP (fst item)") (simp_all add: bind_assoc)
qed

lemma feature_blocks_loop_acc:
  "feature_blocks_loop env dates cohort schema start ignore kwargs acc items =
   bind (feature_blocks_loop env dates cohort schema start ignore kwargs [] items)
     (\<lambda>blocks. ret (acc @ blocks))"
  using feature_blocks_loop_prepend [of env dates cohort schema start ignore kwargs acc "[]" items]
  by simp

lemma feature_blocks_loop_split:
  "feature_blocks_loop env dates cohort schema start ignore kwargs acc (items @ items') =
   bind (feature_blocks_loop env dates cohort schema start ignore kwargs acc items)
     (\<lambda>blocks. feature_blocks_loop env dates cohort schema start ignore kwargs blocks items')"
proof (induction items arbitrary: acc)
  case Nil
  show ?case by simp
next
  case (Cons item items)
  then show ?case
    by (cases "map_of FEATURE_BLOCK_GENERATOR_LOOKUP (fst item)") (simp_all add: bind_assoc)
qed

lemma feature_blocks_loop_append:
  "feature_blocks_loop env dates cohort schema start ignore kwargs [] (items @ items') =
   bind (feature_blocks_loop env dates cohort schema start ignore kwargs [] items) (\<lambda>blocks.
     bind (feature_blocks_loop env dates cohort schema start ignore kwargs [] items')
       (\<lambda>blocks'. ret (blocks @ blocks')))"
proof -
  have e: "(\<lambda>blocks. feature_blocks_loop env dates cohort schema start ignore kwargs blocks items') =
           (\<lambda>blocks.
              bind (feature_blocks_loop env dates cohort schema start ignore kwargs [] items')
                (\<lambda>blocks'. ret (blocks @ blocks')))"
    by (rule ext) (rule feature_blocks_loop_acc)
  show ?thesis
    unfolding feature_blocks_loop_split e ..
qed

text \<open>
  C9. A call of \<^verbatim>\<open>aggregations\<close> on a list of configurations that returns, returns one
  block for each configuration: the block at index \<open>i\<close> is what \<^verbatim>\<open>_aggregation\<close> builds
  from the configuration at index \<open>i\<close> and \<^verbatim>\<open>preprocess_aggregation\<close> then returns, run
  in the state the configurations before it have left.
\<close>

theorem aggregations_one_block_per_config:
  assumes "aggregations env (PList configs) dates state s = (Inr blocks, s')"
  shows "length blocks = length configs \<and>
         (\<exists>ss. length ss = Suc (length configs) \<and> ss ! 0 = s \<and> ss ! length configs = s' \<and>
            (\<forall>i < length configs. \<exists>a s1.
               aggregation env (configs ! i) dates state (ss ! i) = (Inr a, s1) \<and>
               preprocess_aggregation env a s1 = (Inr (blocks ! i), ss ! Suc i)))"
proof -
  from assms have "mapM (\<lambda>aggregation_config.
          bind (aggregation env aggregation_config dates state)
            (preprocess_aggregation env)) configs s = (Inr blocks, s')"
    by (simp add: aggregations_def)
  from mapM_chain [OF this] show ?thesis
    by (simp add: bind_Inr_iff) blast
qed

text \<open>Evaluating the model on the example inputs.\<close>

lemmas model_defs =
  aggregations_def aggregation_def build_aggregate_def build_categoricals_def
  build_categorical_def build_array_categoricals_def build_array_categorical_def
  build_choices_def compute_choices_def preprocess_aggregation_def maybe_materialize_def
  target_of_def table_def should_materialize_def create_if_absent_def py_dict_def
  array_literal_def count_of_def run_defs logging_def init_def

lemmas example_defs =
  env0_def g0_def w0_def block_a_def block_b_def cat_query_def cat_choices_def cat_empty_def

lemma example_run:
  "map prefix (case fst (aggregations env0 (PList [PDict block_a, PDict block_b]) (PList []) PNone
                           (g0, w0)) of Inr blocks \<Rightarrow> blocks | Inl e \<Rightarrow> []) =
   [PStr ''ev'', PStr ''visits'']"
  by (simp add: model_defs example_defs)

theorem aggregations_one_block_per_config_witness:
  "\<exists>blocks s'.
     aggregations env0 (PList [PDict block_a, PDict block_b]) (PList []) PNone (g0, w0) =
       (Inr blocks, s') \<and>
     length blocks = 2 \<and> map prefix blocks = [PStr ''ev'', PStr ''visits'']"
proof -
  obtain r s' where r: "aggregations env0 (PList [PDict block_a, PDict block_b]) (PList []) PNone
      (g0, w0) = (r, s')"
    by (cases "aggregations env0 (PList [PDict block_a, PDict block_b]) (PList []) PNone (g0, w0)")
  with example_run obtain blocks where b: "r = Inr blocks"
    and p: "map prefix blocks = [PStr ''ev'', PStr ''visits'']"
    by (cases r) auto
  from aggregations_one_block_per_config [OF r [unfolded b]]
  have "length blocks = length [PDict block_a, PDict block_b]" by blast
  with r b p show ?thesis by simp
qed

text \<open>
  C4. The blocks come in the order of the configuration. The blocks of a configuration
  whose items are \<open>items\<close> followed by \<open>items'\<close> are the blocks of \<open>items\<close> followed by the
  blocks of \<open>items'\<close>, each computed in turn; the blocks of the one strategy key are the
  blocks its generator returns; within the strategy the blocks of the configurations
  \<open>configs\<close> followed by \<open>configs'\<close> are those of \<open>configs\<close> followed by those of \<open>configs'\<close>;
  and for the two configurations \<open>A\<close> then \<open>B\<close> the result is the block of \<open>A\<close>, then the
  block of \<open>B\<close>.
\<close>

theorem feature_blocks_in_config_order:
  "feature_blocks_from_config env (PDict (items @ items')) dates cohort schema start ignore kwargs =
     bind (feature_blocks_from_config env (PDict items) dates cohort schema start ignore kwargs)
       (\<lambda>blocks.
          bind (feature_blocks_from_config env (PDict items') dates cohort schema start ignore
                  kwargs)
            (\<lambda>blocks'. ret (blocks @ blocks'))) \<and>
   feature_blocks_from_config env (PDict [(''spacetime_aggregations'', config_value)]) dates
       cohort schema start ignore kwargs =
     call_generate_spacetime_aggregations env config_value dates cohort schema start ignore
       kwargs \<and>
   aggregations env (PList (configs @ configs')) dates state =
     bind (aggregations env (PList configs) dates state) (\<lambda>blocks.
       bind (aggregations env (PList configs') dates state) (\<lambda>blocks'. ret (blocks @ blocks'))) \<and>
   aggregations env (PList [A, B]) dates state =
     bind (bind (aggregation env A dates state) (preprocess_aggregation env)) (\<lambda>a.
       bind (bind (aggregation env B dates state) (preprocess_aggregation env)) (\<lambda>b.
         ret [a, b]))"
proof (intro conjI)
  show "feature_blocks_from_config env (PDict (items @ items')) dates cohort schema start ignore
          kwargs =
     bind (feature_blocks_from_config env (PDict items) dates cohort schema start ignore kwargs)
       (\<lambda>blocks.
          bind (feature_blocks_from_config env (PDict items') dates cohort schema start ignore
                  kwargs)
            (\<lambda>blocks'. ret (blocks @ blocks')))"
    unfolding feature_blocks_from_config_def pyval.case
    by (rule feature_blocks_loop_append)
  show "feature_blocks_from_config env (PDict [(''spacetime_aggregations'', config_value)]) dates
       cohort schema start ignore kwargs =
     call_generate_spacetime_aggregations env config_value dates cohort schema start ignore
       kwargs"
    by (simp add: feature_blocks_from_config_def FEATURE_BLOCK_GENERATOR_LOOKUP_def)
  show "aggregations env (PList (configs @ configs')) dates state =
     bind (aggregations env (PList configs) dates state) (\<lambda>blocks.
       bind (aggregations env (PList configs') dates state) (\<lambda>blocks'. ret (blocks @ blocks')))"
    by (simp add: aggregations_def mapM_append)
  show "aggregations env (PList [A, B]) dates state =
     bind (bind (aggregation env A dates state) (preprocess_aggregation env)) (\<lambda>a.
       bind (bind (aggregation env B dates state) (preprocess_aggregation env)) (\<lambda>b.
         ret [a, b]))"
    by (simp add: aggregations_def bind_assoc)
qed

theorem feature_blocks_in_config_order_witness:
  "map prefix (case fst (feature_blocks_from_config env0
       (PDict [(''spacetime_aggregations'', PList [PDict block_a, PDict block_b])])
       (PList []) (PStr ''cohort'') (PStr ''features'') PNone (PBool False) [] w0)
     of Inr blocks \<Rightarrow> blocks | Inl e \<Rightarrow> []) = [PStr ''ev'', PStr ''visits'']"
proof -
  have e: "feature_blocks_from_config env0
       (PDict [(''spacetime_aggregations'', PList [PDict block_a, PDict block_b])])
       (PList []) (PStr ''cohort'') (PStr ''features'') PNone (PBool False) [] =
     call_generate_spacetime_aggregations env0 (PList [PDict block_a, PDict block_b])
       (PList []) (PStr ''cohort'') (PStr ''features'') PNone (PBool False) []"
    by (rule feature_blocks_in_config_order [THEN conjunct2, THEN conjunct1])
  show ?thesis
    unfolding e
    by (simp add: call_generate_spacetime_aggregations_def generate_spacetime_aggregations_def
        Let_def model_defs example_defs)
qed

subsection \<open>A run without a cohort table\<close>

lemma hoare_mapM_all:
  assumes "\<And>x. hoare I (f x) (\<lambda>y s. I s \<and> R y) E"
  shows "hoare I (mapM f xs) (\<lambda>ys s. I s \<and> list_all R ys) E"
proof (induction xs)
  case Nil
  show ?case by (simp add: hoare_def)
next
  case (Cons x xs)
  show ?case
    unfolding mapM.simps
  proof (rule hoare_bind [OF assms])
    fix y
    show "hoare (\<lambda>s. I s \<and> R y) (bind (mapM f xs) (\<lambda>ys. ret (y # ys)))
            (\<lambda>ys s. I s \<and> list_all R ys) E"
      using Cons.IH by (auto simp: hoare_def bind_def split: prod.splits sum.splits)
  qed
qed

lemma upheld_generator_field:
  "upheld env (\<lambda>s. features_ignore_cohort (fst s) = c) (\<lambda>s. features_ignore_cohort (fst s) = c)"
  by (auto simp: upheld_def hoare_def compute_choices_def Let_def
      split: if_splits option.splits sum.splits)

lemma upheld_log_record:
  "upheld env (\<lambda>s. r \<in> set (logs (snd s))) (\<lambda>s. r \<in> set (logs (snd s)))"
  by (auto simp: upheld_def hoare_def compute_choices_def Let_def logging_def
      split: if_splits option.splits sum.splits)

lemma block_ignore_cohort:
  "hoare (\<lambda>s. features_ignore_cohort (fst s) = c)
     (bind (aggregation env config dates state) (preprocess_aggregation env))
     (\<lambda>b s. features_ignore_cohort (fst s) = c \<and> sa_features_ignore_cohort b = c)
     (\<lambda>s. features_ignore_cohort (fst s) = c)"
proof (rule hoare_bind)
  have k: "hoare (\<lambda>s. features_ignore_cohort (fst s) = c) (aggregation env config dates state)
             (\<lambda>_ s. features_ignore_cohort (fst s) = c) (\<lambda>s. features_ignore_cohort (fst s) = c)"
    by (rule keeps_aggregation [OF upheld_generator_field])
  show "hoare (\<lambda>s. features_ignore_cohort (fst s) = c) (aggregation env config dates state)
          (\<lambda>a s. features_ignore_cohort (fst s) = c \<and> sa_features_ignore_cohort a = c)
          (\<lambda>s. features_ignore_cohort (fst s) = c)"
  proof (rule hoareI)
    fix s :: "generator \<times> world" and e s'
    assume "features_ignore_cohort (fst s) = c"
      and "aggregation env config dates state s = (Inl e, s')"
    from hoare_Inl [OF k this] show "features_ignore_cohort (fst s') = c" .
  next
    fix s :: "generator \<times> world" and a s'
    assume i: "features_ignore_cohort (fst s) = c"
      and r: "aggregation env config dates state s = (Inr a, s')"
    from hoare_Inr [OF k i r] have "features_ignore_cohort (fst s') = c" .
    with aggregation_Inr [OF r]
    show "features_ignore_cohort (fst s') = c \<and> sa_features_ignore_cohort a = c" by simp
  qed
next
  fix a
  have k: "hoare (\<lambda>s. features_ignore_cohort (fst s) = c) (preprocess_aggregation env a)
             (\<lambda>_ s. features_ignore_cohort (fst s) = c) (\<lambda>s. features_ignore_cohort (fst s) = c)"
    by (rule keeps_preprocess_aggregation [OF upheld_generator_field])
  show "hoare (\<lambda>s. features_ignore_cohort (fst s) = c \<and> sa_features_ignore_cohort a = c)
          (preprocess_aggregation env a)
          (\<lambda>b s. features_ignore_cohort (fst s) = c \<and> sa_features_ignore_cohort b = c)
          (\<lambda>s. features_ignore_cohort (fst s) = c)"
  proof (rule hoareI)
    fix s :: "generator \<times> world" and e s'
    assume "features_ignore_cohort (fst s) = c \<and> sa_features_ignore_cohort a = c"
      and r: "preprocess_aggregation env a s = (Inl e, s')"
    then have "features_ignore_cohort (fst s) = c" by simp
    from hoare_Inl [OF k this r] show "features_ignore_cohort (fst s') = c" .
  next
    fix s :: "generator \<times> world" and b s'
    assume p: "features_ignore_cohort (fst s) = c \<and> sa_features_ignore_cohort a = c"
      and r: "preprocess_aggregation env a s = (Inr b, s')"
    from p have i: "features_ignore_cohort (fst s) = c" by simp
    from hoare_Inr [OF k i r] have "features_ignore_cohort (fst s') = c" .
    moreover from preprocess_aggregation_Inr [OF r] p have "sa_features_ignore_cohort b = c"
      by (simp split: if_splits)
    ultimately show "features_ignore_cohort (fst s') = c \<and> sa_features_ignore_cohort b = c"
      by simp
  qed
qed

lemma aggregations_ignore_cohort:
  assumes "aggregations env config dates state (g, w) = (Inr blocks, s')"
  shows "list_all (\<lambda>b. sa_features_ignore_cohort b = features_ignore_cohort g) blocks"
proof -
  have "hoare (\<lambda>s. features_ignore_cohort (fst s) = features_ignore_cohort g)
          (aggregations env config dates state)
          (\<lambda>blocks s. features_ignore_cohort (fst s) = features_ignore_cohort g \<and>
             list_all (\<lambda>b. sa_features_ignore_cohort b = features_ignore_cohort g) blocks)
          (\<lambda>s. features_ignore_cohort (fst s) = features_ignore_cohort g)"
    unfolding aggregations_def
    by (intro hoare_bind [OF keeps_lift [OF upheld_generator_field]] hoare_mapM_all
        block_ignore_cohort)
  from hoare_Inr [OF this _ assms] show ?thesis by simp
qed

lemma aggregations_keeps_log_record:
  assumes "r \<in> set (logs w)"
  shows "r \<in> set (logs (snd (snd (aggregations env config dates state (g, w)))))"
proof -
  have h: "hoare (\<lambda>s. r \<in> set (logs (snd s))) (aggregations env config dates state)
          (\<lambda>_ s. r \<in> set (logs (snd s))) (\<lambda>s. r \<in> set (logs (snd s)))"
    by (rule keeps_aggregations [OF upheld_log_record])
  have p: "r \<in> set (logs (snd (g, w)))"
    using assms by simp
  obtain x s' where x: "aggregations env config dates state (g, w) = (x, s')"
    by (cases "aggregations env config dates state (g, w)")
  have "r \<in> set (logs (snd s'))"
  proof (cases x)
    case (Inl e)
    from hoare_Inl [OF h p x [unfolded Inl]] show ?thesis .
  next
    case (Inr blocks)
    from hoare_Inr [OF h p x [unfolded Inr]] show ?thesis .
  qed
  then show ?thesis by (simp add: x)
qed

text \<open>
  C6. Called without a cohort table (a value that tests false: \<^verbatim>\<open>None\<close>, the empty
  string), \<^verbatim>\<open>generate_spacetime_aggregations\<close> raises nothing of its own: it logs the
  warning and its result is the result of the generator's run with
  \<^verbatim>\<open>features_ignore_cohort=True\<close>, whatever the caller passed for it. The warning is among
  the log records when the call ends, and every block it returns has the flag set.
\<close>

theorem absent_cohort_table_degrades:
  assumes "\<not> truthy cohort"
  shows "generate_spacetime_aggregations env config dates cohort schema start materialize ignore w =
           (let r = aggregations env config dates cohort
                      (init schema start materialize (PBool True),
                       logging WARNING ''No cohort table passed. Imputation will not be possible.''
                         [] w)
            in (fst r, snd (snd r))) \<and>
         (WARNING, ''No cohort table passed. Imputation will not be possible.'', [])
           \<in> set (logs (snd (generate_spacetime_aggregations env config dates cohort schema start
                                materialize ignore w))) \<and>
         (\<forall>blocks. fst (generate_spacetime_aggregations env config dates cohort schema start
                          materialize ignore w) = Inr blocks \<longrightarrow>
            (\<forall>b \<in> set blocks. sa_features_ignore_cohort b = PBool True))"
proof (intro conjI allI impI)
  let ?w = "logging WARNING ''No cohort table passed. Imputation will not be possible.'' [] w"
  let ?g = "init schema start materialize (PBool True)"
  show eq: "generate_spacetime_aggregations env config dates cohort schema start materialize
          ignore w =
        (let r = aggregations env config dates cohort (?g, ?w) in (fst r, snd (snd r)))"
    using assms by (simp add: generate_spacetime_aggregations_def Let_def)
  have "(WARNING, ''No cohort table passed. Imputation will not be possible.'', [])
          \<in> set (logs ?w)"
    by (simp add: logging_def)
  from aggregations_keeps_log_record [OF this]
  show "(WARNING, ''No cohort table passed. Imputation will not be possible.'', [])
           \<in> set (logs (snd (generate_spacetime_aggregations env config dates cohort schema start
                                materialize ignore w)))"
    by (simp add: eq Let_def)
  fix blocks
  assume "fst (generate_spacetime_aggregations env config dates cohort schema start materialize
                 ignore w) = Inr blocks"
  then obtain s' where "aggregations env config dates cohort (?g, ?w) = (Inr blocks, s')"
    by (cases "aggregations env config dates cohort (?g, ?w)") (simp add: eq Let_def)
  from aggregations_ignore_cohort [OF this]
  show "\<forall>b \<in> set blocks. sa_features_ignore_cohort b = PBool True"
    by (simp add: list_all_iff init_def)
qed

theorem absent_cohort_table_degrades_witness:
  "\<not> truthy PNone \<and>
   map sa_features_ignore_cohort
     (case fst (generate_spacetime_aggregations env0 (PList [PDict block_a, PDict block_b])
                  (PList []) PNone (PStr ''features'') PNone (PBool True) (PBool False) w0)
      of Inr blocks \<Rightarrow> blocks | Inl e \<Rightarrow> []) = [PBool True, PBool True] \<and>
   hd (logs (snd (generate_spacetime_aggregations env0 (PList [PDict block_a, PDict block_b])
                    (PList []) PNone (PStr ''features'') PNone (PBool True) (PBool False) w0))) =
     (WARNING, ''No cohort table passed. Imputation will not be possible.'', [])"
proof -
  have h: "\<not> truthy PNone" by simp
  note e = absent_cohort_table_degrades [OF h, THEN conjunct1]
  show ?thesis
    unfolding e by (simp add: Let_def model_defs example_defs)
qed

subsection \<open>The cache of lookup queries\<close>
















subsection \<open>Unrecognized strategy keys\<close>

lemma feature_blocks_loop_unrecognized:
  assumes "map_of FEATURE_BLOCK_GENERATOR_LOOKUP key = None"
  shows "feature_blocks_loop env dates cohort schema start ignore kwargs acc
           (pre @ (key, v) # post) w =
         (case feature_blocks_loop env dates cohort schema start ignore kwargs acc pre w of
            (Inl e, w') \<Rightarrow> (Inl e, w')
          | (Inr blocks, w') \<Rightarrow> (Inl (unrecognized key), w'))"
  using assms
  by (simp add: feature_blocks_loop_split bind_def split: prod.splits sum.splits)

lemma unrecognized_text:
  "unrecognized key =
     ValueError (''feature config key '' @ key @
       '' does not correspond to a recognized feature generator.  '' @
       ''Recognized feature generator keys:dict_keys(['' @ [sq] @ ''spacetime_aggregations'' @
       [sq] @ ''])'')"
  by (simp add: unrecognized_def dict_keys_str_def FEATURE_BLOCK_GENERATOR_LOOKUP_def)

text \<open>
  C1 (amended). A configuration with a key that is not in the registry yields no list
  of blocks. The keys in front of the unrecognized key are processed first: when one of
  them raises, that is the error; otherwise the call raises the \<^verbatim>\<open>ValueError\<close> whose
  message names the key and lists the keys of the registry, in the world those keys
  have left. When the unrecognized key is the first one, the call raises that error
  with no block generated and no call on the store.
\<close>

theorem unrecognized_key_rejected:
  assumes "map_of FEATURE_BLOCK_GENERATOR_LOOKUP key = None"
  shows "feature_blocks_from_config env (PDict (pre @ (key, v) # post)) dates cohort schema start
           ignore kwargs w =
         (case feature_blocks_from_config env (PDict pre) dates cohort schema start ignore kwargs w
          of (Inl e, w') \<Rightarrow> (Inl e, w')
           | (Inr blocks, w') \<Rightarrow> (Inl (unrecognized key), w')) \<and>
         feature_blocks_from_config env (PDict ((key, v) # post)) dates cohort schema start ignore
           kwargs w = (Inl (unrecognized key), w) \<and>
         (\<forall>items blocks. (key, v) \<in> set items \<longrightarrow>
            fst (feature_blocks_from_config env (PDict items) dates cohort schema start ignore
                   kwargs w) \<noteq> Inr blocks) \<and>
         unrecognized key =
           ValueError (''feature config key '' @ key @
             '' does not correspond to a recognized feature generator.  '' @
             ''Recognized feature generator keys:dict_keys(['' @ [sq] @
             ''spacetime_aggregations'' @ [sq] @ ''])'')"
proof (intro conjI allI impI)
  show g: "feature_blocks_from_config env (PDict (pre @ (key, v) # post)) dates cohort schema start
           ignore kwargs w =
         (case feature_blocks_from_config env (PDict pre) dates cohort schema start ignore kwargs w
          of (Inl e, w') \<Rightarrow> (Inl e, w')
           | (Inr blocks, w') \<Rightarrow> (Inl (unrecognized key), w'))" for pre post
    by (simp add: feature_blocks_from_config_def feature_blocks_loop_unrecognized [OF assms])
  show "feature_blocks_from_config env (PDict ((key, v) # post)) dates cohort schema start ignore
           kwargs w = (Inl (unrecognized key), w)"
    using assms by (simp add: feature_blocks_from_config_def)
  show "fst (feature_blocks_from_config env (PDict items) dates cohort schema start ignore
                   kwargs w) \<noteq> Inr blocks" if "(key, v) \<in> set items" for items blocks
  proof -
    from that obtain pre post where "items = pre @ (key, v) # post"
      by (auto dest: split_list)
    then show ?thesis
      by (simp add: g split: prod.splits sum.splits)
  qed
  show "unrecognized key =
           ValueError (''feature config key '' @ key @
             '' does not correspond to a recognized feature generator.  '' @
             ''Recognized feature generator keys:dict_keys(['' @ [sq] @
             ''spacetime_aggregations'' @ [sq] @ ''])'')"
    by (rule unrecognized_text)
qed

theorem unrecognized_key_rejected_witness:
  "map_of FEATURE_BLOCK_GENERATOR_LOOKUP ''bogus_strategy'' = None \<and>
   feature_blocks_from_config env0
     (PDict [(''bogus_strategy'', PList []),
             (''spacetime_aggregations'', PList [PDict block_a])])
     (PList []) (PStr ''cohort'') (PStr ''features'') PNone (PBool False) [] w0 =
   (Inl (ValueError (''feature config key bogus_strategy does not correspond to a recognized'' @
                     '' feature generator.  Recognized feature generator keys:dict_keys(['' @
                     [sq] @ ''spacetime_aggregations'' @ [sq] @ ''])'')), w0)"
proof -
  have h: "map_of FEATURE_BLOCK_GENERATOR_LOOKUP ''bogus_strategy'' = None"
    by (simp add: FEATURE_BLOCK_GENERATOR_LOOKUP_def)
  from unrecognized_key_rejected [OF h, THEN conjunct2, THEN conjunct1]
  have "feature_blocks_from_config env0
     (PDict [(''bogus_strategy'', PList []),
             (''spacetime_aggregations'', PList [PDict block_a])])
     (PList []) (PStr ''cohort'') (PStr ''features'') PNone (PBool False) [] w0 =
     (Inl (unrecognized ''bogus_strategy''), w0)" .
  with h show ?thesis
    by (simp add: unrecognized_text)
qed

text \<open>
  The claim as it stands fails when the unrecognized key comes after a recognized one:
  the error is raised only when the loop reaches the key, after the generator of the
  recognized key has run its lookup query and created the schema; and when that
  generator raises, its error is the result.
\<close>

theorem unrecognized_key_after_recognized_counterexample:
  "fst (feature_blocks_from_config env0
          (PDict [(''spacetime_aggregations'', PList [PDict block_b]),
                  (''bogus_strategy'', PList [])])
          (PList []) (PStr ''cohort'') (PStr ''features'') PNone (PBool False) [] w0) =
     Inl (unrecognized ''bogus_strategy'') \<and>
   executed (snd (feature_blocks_from_config env0
          (PDict [(''spacetime_aggregations'', PList [PDict block_b]),
                  (''bogus_strategy'', PList [])])
          (PList []) (PStr ''cohort'') (PStr ''features'') PNone (PBool False) [] w0)) =
     [Lookup (PStr ''select distinct kind from events''),
      CreateSchema ''CREATE SCHEMA IF NOT EXISTS features''] \<and>
   fst (feature_blocks_from_config env0
          (PDict [(''spacetime_aggregations'', PList [PDict []]),
                  (''bogus_strategy'', PList [])])
          (PList []) (PStr ''cohort'') (PStr ''features'') PNone (PBool False) [] w0) =
     Inl (KeyError ''from_obj'')"
  by (simp add: feature_blocks_from_config_def FEATURE_BLOCK_GENERATOR_LOOKUP_def
      call_generate_spacetime_aggregations_def generate_spacetime_aggregations_def Let_def
      model_defs example_defs)

subsection \<open>Preprocessing an aggregation\<close>









end
